theory Spec2Isabelle
  imports Main
begin

section \<open>The Sequence feature connector of tensorflow_datasets\<close>

text \<open>
  A shallow embedding of \<^verbatim>\<open>tensorflow_datasets/core/features/sequence_feature.py\<close>:
  the class \<^verbatim>\<open>Sequence\<close> and the module functions \<^verbatim>\<open>stack_arrays\<close>,
  \<^verbatim>\<open>np_to_list\<close> and \<^verbatim>\<open>_transpose_dict_list\<close>.
\<close>

subsection \<open>Tensor descriptions and nested structures\<close>

text \<open>A TensorFlow element type, identified by its name (\<^verbatim>\<open>tf.float32\<close> is \<open>DType ''float32''\<close>).\<close>

datatype tf_dtype = DType string

text \<open>A numpy element type, identified by its name.\<close>

datatype np_dtype = NpDType string

text \<open>
  \<^verbatim>\<open>tf.DType.as_numpy_dtype\<close>: the numpy type of the same name, except that strings
  are held in numpy arrays of Python objects.
\<close>

fun as_numpy_dtype :: "tf_dtype \<Rightarrow> np_dtype" where
  "as_numpy_dtype (DType n) = NpDType (if n = ''string'' then ''object'' else n)"

text \<open>
  \<^verbatim>\<open>feature_lib.TensorInfo\<close>: the shape and the element type of one tensor. A dimension
  is a size, or \<open>None\<close> when it is unknown.
\<close>

record tensor_info =
  shape :: "nat option list"
  dtype :: tf_dtype

text \<open>
  A nested structure of descriptions: a leaf, or a dict from feature names to nested
  structures. The items of a dict are kept in the order in which Python iterates over them.
\<close>

datatype 'a nested = Leaf 'a | Struct "(string \<times> 'a nested) list"

text \<open>
  Modelled from the spec: \<^verbatim>\<open>utils.map_nested\<close> is not part of the module. It is the
  uniform recursive map that applies a transform to every leaf while preserving the
  topology of the structure.
\<close>

fun map_nested :: "('a \<Rightarrow> 'b) \<Rightarrow> 'a nested \<Rightarrow> 'b nested" where
  "map_nested f (Leaf x) = Leaf (f x)"
| "map_nested f (Struct kvs) = Struct (map (\<lambda>(k, v). (k, map_nested f v)) kvs)"

text \<open>The topology of a structure: its keys and nesting, with the leaves erased.\<close>

definition topology :: "'a nested \<Rightarrow> unit nested" where
  "topology t = map_nested (\<lambda>_. ()) t"

text \<open>The leaf reached by following a path of keys, if the path ends at a leaf.\<close>

fun leaf_at :: "'a nested \<Rightarrow> string list \<Rightarrow> 'a option" where
  "leaf_at (Leaf x) [] = Some x"
| "leaf_at (Leaf x) (k # p) = None"
| "leaf_at (Struct kvs) [] = None"
| "leaf_at (Struct kvs) (k # p) =
     (case map_of kvs k of None \<Rightarrow> None | Some t \<Rightarrow> leaf_at t p)"

subsection \<open>Python values and errors\<close>

text \<open>
  The Python values that reach the module. A numpy array carries its element type, its
  shape and the sequence of its items along the first axis (sub-arrays, or the elements
  themselves for a one-dimensional array); an array of shape \<open>[]\<close> is zero-dimensional.
  A dict keeps its items in iteration order. \<open>PObject n\<close> is any other object, of the
  type named \<open>n\<close>.
\<close>

datatype pyval =
    PNone
  | PInt int
  | PStr string
  | PList "pyval list"
  | PTuple "pyval list"
  | PArray np_dtype "nat list" "pyval list"
  | PDict "(string \<times> pyval) list"
  | PObject string

type_synonym ndarray = "np_dtype \<times> nat list \<times> pyval list"

text \<open>
  The exceptions. \<open>InputTypeError\<close> is the \<^verbatim>\<open>ValueError\<close> of \<^verbatim>\<open>np_to_list\<close> (the
  spec's TypeMismatch) with the name of the offending type; \<open>ElementLengthError\<close> is the
  \<^verbatim>\<open>ValueError\<close> of \<^verbatim>\<open>update_length\<close> and \<open>SequenceLengthError\<close> the one of
  \<^verbatim>\<open>encode_example\<close> (the spec's LengthMismatch), each with the two numbers of its
  message in the order of the message. \<open>AttributeError\<close> names an attribute that an
  object does not have. \<open>FeatureError\<close> is whatever the inner feature or an external
  library raises.
\<close>

datatype error =
    InputTypeError string
  | ElementLengthError nat nat
  | SequenceLengthError nat nat
  | TypeError string
  | IndexError
  | KeyError string
  | NumpyValueError string
  | AttributeError string
  | FeatureError string

fun type_name :: "pyval \<Rightarrow> string" where
  "type_name PNone = ''NoneType''"
| "type_name (PInt i) = ''int''"
| "type_name (PStr s) = ''str''"
| "type_name (PList xs) = ''list''"
| "type_name (PTuple xs) = ''tuple''"
| "type_name (PArray dt sh items) = ''numpy.ndarray''"
| "type_name (PDict kvs) = ''dict''"
| "type_name (PObject n) = n"

fun is_dict :: "pyval \<Rightarrow> bool" where
  "is_dict (PDict kvs) = True"
| "is_dict v = False"

fun is_ndarray :: "pyval \<Rightarrow> bool" where
  "is_ndarray (PArray dt sh items) = True"
| "is_ndarray v = False"

fun array_dtype :: "pyval \<Rightarrow> np_dtype option" where
  "array_dtype (PArray dt sh items) = Some dt"
| "array_dtype v = None"

fun array_shape :: "pyval \<Rightarrow> nat list option" where
  "array_shape (PArray dt sh items) = Some sh"
| "array_shape v = None"

text \<open>\<^verbatim>\<open>len(elem)\<close>.\<close>

fun py_len :: "pyval \<Rightarrow> error + nat" where
  "py_len (PList xs) = Inr (length xs)"
| "py_len (PTuple xs) = Inr (length xs)"
| "py_len (PStr s) = Inr (length s)"
| "py_len (PDict kvs) = Inr (length kvs)"
| "py_len (PArray dt sh items) =
     (case sh of [] \<Rightarrow> Inl (TypeError ''len() of unsized object'') | n # _ \<Rightarrow> Inr n)"
| "py_len v = Inl (TypeError ''object has no len()'')"

text \<open>\<^verbatim>\<open>elem[i]\<close> for an index \<open>i\<close> produced by \<^verbatim>\<open>range\<close>.\<close>

fun py_getitem :: "pyval \<Rightarrow> nat \<Rightarrow> error + pyval" where
  "py_getitem (PList xs) i = (if i < length xs then Inr (xs ! i) else Inl IndexError)"
| "py_getitem (PTuple xs) i = (if i < length xs then Inr (xs ! i) else Inl IndexError)"
| "py_getitem (PStr s) i = (if i < length s then Inr (PStr [s ! i]) else Inl IndexError)"
| "py_getitem (PArray dt sh items) i =
     (case sh of
        [] \<Rightarrow> Inl IndexError
      | n # _ \<Rightarrow> if i < n \<and> i < length items then Inr (items ! i) else Inl IndexError)"
| "py_getitem (PDict kvs) i = Inl (KeyError ''<int>'')"
| "py_getitem v i = Inl (TypeError ''object is not subscriptable'')"

text \<open>
  A comprehension whose body may raise: the elements are computed in order and the first
  exception ends the computation.
\<close>

fun mapM :: "('a \<Rightarrow> error + 'b) \<Rightarrow> 'a list \<Rightarrow> error + 'b list" where
  "mapM f [] = Inr []"
| "mapM f (x # xs) =
     (case f x of
        Inl e \<Rightarrow> Inl e
      | Inr y \<Rightarrow> (case mapM f xs of Inl e \<Rightarrow> Inl e | Inr ys \<Rightarrow> Inr (y # ys)))"

lemma mapM_cong [fundef_cong]:
  "xs = ys \<Longrightarrow> (\<And>x. x \<in> set ys \<Longrightarrow> f x = g x) \<Longrightarrow> mapM f xs = mapM g ys"
  by (induction ys arbitrary: xs) (auto split: sum.splits)

text \<open>The same, for a body that also reads and updates a cell of state.\<close>

fun mapM_st :: "('a \<Rightarrow> 's \<Rightarrow> error + 'b \<times> 's) \<Rightarrow> 'a list \<Rightarrow> 's \<Rightarrow> error + 'b list \<times> 's" where
  "mapM_st f [] s = Inr ([], s)"
| "mapM_st f (x # xs) s =
     (case f x s of
        Inl e \<Rightarrow> Inl e
      | Inr (y, s') \<Rightarrow>
          (case mapM_st f xs s' of Inl e \<Rightarrow> Inl e | Inr (ys, s'') \<Rightarrow> Inr (y # ys, s'')))"

lemma mapM_st_cong [fundef_cong]:
  "xs = ys \<Longrightarrow> s = t \<Longrightarrow> (\<And>x u. x \<in> set ys \<Longrightarrow> f x u = g x u) \<Longrightarrow>
   mapM_st f xs s = mapM_st g ys t"
  by (induction ys arbitrary: xs s t) (auto split: sum.splits prod.splits)

text \<open>
  Modelled from the spec: \<^verbatim>\<open>utils.map_nested\<close> with \<^verbatim>\<open>dict_only=True\<close>, on values. A
  dict is an inner node, every other value is a leaf, and the items of a dict are visited
  in iteration order.
\<close>

fun map_nested_dict_only :: "(pyval \<Rightarrow> error + pyval) \<Rightarrow> pyval \<Rightarrow> error + pyval" where
  "map_nested_dict_only f (PDict kvs) =
     (case mapM (\<lambda>(k, v). case map_nested_dict_only f v of
                             Inl e \<Rightarrow> Inl e
                           | Inr v' \<Rightarrow> Inr (k, v')) kvs of
        Inl e \<Rightarrow> Inl e
      | Inr kvs' \<Rightarrow> Inr (PDict kvs'))"
| "map_nested_dict_only f v = f v"

text \<open>
  Modelled from the spec: the same traversal for a function that is a closure over a
  mutable cell, as \<^verbatim>\<open>update_length\<close> is; the cell is passed along.
\<close>

fun map_nested_dict_only_st ::
  "(pyval \<Rightarrow> 's \<Rightarrow> error + pyval \<times> 's) \<Rightarrow> pyval \<Rightarrow> 's \<Rightarrow> error + pyval \<times> 's" where
  "map_nested_dict_only_st f (PDict kvs) s =
     (case mapM_st (\<lambda>(k, v) u. case map_nested_dict_only_st f v u of
                                  Inl e \<Rightarrow> Inl e
                                | Inr (v', u') \<Rightarrow> Inr ((k, v'), u')) kvs s of
        Inl e \<Rightarrow> Inl e
      | Inr (kvs', s') \<Rightarrow> Inr (PDict kvs', s'))"
| "map_nested_dict_only_st f v s = f v s"

text \<open>A nested structure of values, as a value.\<close>

fun nested_to_pyval :: "pyval nested \<Rightarrow> pyval" where
  "nested_to_pyval (Leaf v) = v"
| "nested_to_pyval (Struct kvs) = PDict (map (\<lambda>(k, t). (k, nested_to_pyval t)) kvs)"

subsection \<open>numpy\<close>

text \<open>
  \<^verbatim>\<open>list(elem)\<close> for a numpy array: the items along the first axis; numpy refuses to
  iterate over a zero-dimensional array.
\<close>

fun ndarray_to_list :: "nat list \<Rightarrow> pyval list \<Rightarrow> error + pyval" where
  "ndarray_to_list [] items = Inl (TypeError ''iteration over a 0-d array'')"
| "ndarray_to_list (n # sh) items = Inr (PList items)"

text \<open>
  What an array contributes to a stack as the item of its position: the array itself, or
  its one element when the array is zero-dimensional (stacking zero-dimensional arrays
  gives a one-dimensional array of their elements).
\<close>

fun stacked_item :: "pyval \<Rightarrow> pyval" where
  "stacked_item (PArray dt [] [x]) = x"
| "stacked_item v = v"

text \<open>
  \<^verbatim>\<open>np.stack(arrays)\<close>. Arrays of one shape and one element type are joined along a new
  first axis: the items of the result are the arrays, in order. Arrays of different shapes
  are refused. What numpy does with arguments that are not arrays (it converts them first)
  and with arrays of different element types (it promotes them) is not modelled: it is the
  parameter \<open>np_stack_coerce\<close>, which returns an array or raises.
\<close>

definition np_stack :: "(pyval list \<Rightarrow> error + ndarray) \<Rightarrow> pyval list \<Rightarrow> error + ndarray" where
  "np_stack np_stack_coerce arrays =
     (case arrays of
        [] \<Rightarrow> Inl (NumpyValueError ''need at least one array to stack'')
      | a # rest \<Rightarrow>
          (case a of
             PArray dt sh items \<Rightarrow>
               if list_all is_ndarray rest then
                 if list_all (\<lambda>b. array_shape b = Some sh) rest then
                   if list_all (\<lambda>b. array_dtype b = Some dt) rest
                   then Inr (dt, length arrays # sh, map stacked_item arrays)
                   else np_stack_coerce arrays
                 else Inl (NumpyValueError ''all input arrays must have the same shape'')
               else np_stack_coerce arrays
           | _ \<Rightarrow> np_stack_coerce arrays))"

text \<open>
  \<^verbatim>\<open>np.empty(shape, dtype)\<close>: an array of the given shape whose elements are not
  initialised; an element that exists is shown as \<open>PNone\<close>. An array with a dimension of
  size 0 has no element.
\<close>

fun np_empty :: "nat list \<Rightarrow> np_dtype \<Rightarrow> pyval" where
  "np_empty [] dt = PArray dt [] [PNone]"
| "np_empty (n # sh) dt = PArray dt (n # sh) (replicate n (np_empty sh dt))"

subsection \<open>The module functions\<close>

text \<open>\<^verbatim>\<open>stack_arrays(*elems)\<close>.\<close>

definition stack_arrays :: "(pyval list \<Rightarrow> error + ndarray) \<Rightarrow> pyval list \<Rightarrow> error + pyval" where
  "stack_arrays np_stack_coerce elems =
     (case elems of
        [] \<Rightarrow> Inl IndexError
      | e0 # _ \<Rightarrow>
          if is_ndarray e0 then
            (case np_stack np_stack_coerce elems of
               Inl e \<Rightarrow> Inl e
             | Inr (dt, sh, items) \<Rightarrow> Inr (PArray dt sh items))
          else Inr (PList elems))"

text \<open>\<^verbatim>\<open>np_to_list(elem)\<close>.\<close>

fun np_to_list :: "pyval \<Rightarrow> error + pyval" where
  "np_to_list (PList xs) = Inr (PList xs)"
| "np_to_list (PTuple xs) = Inr (PList xs)"
| "np_to_list (PArray dt sh items) = ndarray_to_list sh items"
| "np_to_list elem = Inl (InputTypeError (type_name elem))"

text \<open>
  \<^verbatim>\<open>update_length(elem)\<close> of \<^verbatim>\<open>_transpose_dict_list\<close>. The cell \<^verbatim>\<open>length['value']\<close> is
  the second argument and is returned with the result.
\<close>

definition update_length :: "pyval \<Rightarrow> nat option \<Rightarrow> error + pyval \<times> nat option" where
  "update_length elem length_value =
     (case length_value of
        None \<Rightarrow>
          (case py_len elem of Inl e \<Rightarrow> Inl e | Inr n \<Rightarrow> Inr (elem, Some n))
      | Some l \<Rightarrow>
          (case py_len elem of
             Inl e \<Rightarrow> Inl e
           | Inr n \<Rightarrow> if l \<noteq> n then Inl (ElementLengthError l n) else Inr (elem, Some l)))"

text \<open>\<^verbatim>\<open>_transpose_dict_list(dict_list)\<close>; \<^verbatim>\<open>range(None)\<close> is a \<^verbatim>\<open>TypeError\<close>.\<close>

definition transpose_dict_list :: "pyval \<Rightarrow> error + pyval list" where
  "transpose_dict_list dict_list0 =
     (case map_nested_dict_only np_to_list dict_list0 of
        Inl e \<Rightarrow> Inl e
      | Inr dict_list \<Rightarrow>
          (case map_nested_dict_only_st update_length dict_list None of
             Inl e \<Rightarrow> Inl e
           | Inr (_, length_value) \<Rightarrow>
               (case length_value of
                  None \<Rightarrow> Inl (TypeError ''range(None)'')
                | Some n \<Rightarrow>
                    mapM (\<lambda>i. map_nested_dict_only (\<lambda>elem. py_getitem elem i) dict_list)
                      [0..<n])))"

text \<open>
  Modelled from the spec: \<^verbatim>\<open>utils.zip_dict\<close> is not part of the module. It walks
  sibling dicts in lock-step: for every key of the dicts it gives the values of that key,
  one per dict and in the order of the dicts. It is a generator, so the lookup for a key
  happens when that key is reached: a key that some dict lacks is a \<^verbatim>\<open>KeyError\<close> at that
  point. A sibling that is not a dict is a divergent topology and fails at once.
\<close>

fun as_dict :: "pyval \<Rightarrow> error + (string \<times> pyval) list" where
  "as_dict (PDict kvs) = Inr kvs"
| "as_dict v = Inl (TypeError ''not a dict'')"

definition dict_getitem :: "(string \<times> pyval) list \<Rightarrow> string \<Rightarrow> error + pyval" where
  "dict_getitem d k = (case map_of d k of None \<Rightarrow> Inl (KeyError k) | Some v \<Rightarrow> Inr v)"

definition zip_dict :: "pyval list \<Rightarrow> error + (string \<times> (error + pyval list)) list" where
  "zip_dict dicts =
     (case mapM as_dict dicts of
        Inl e \<Rightarrow> Inl e
      | Inr ds \<Rightarrow>
          Inr (map (\<lambda>k. (k, mapM (\<lambda>d. dict_getitem d k) ds))
                 (remdups (concat (map (map fst) ds)))))"

lemma size_map_of:
  "map_of kvs k = Some v \<Longrightarrow> size v < Suc (size_list (size_prod (\<lambda>_. 0) size) kvs)"
  by (induction kvs) (auto split: if_splits)

lemma zip_dict_hd_smaller:
  assumes "zip_dict (PDict d0 # rest) = Inr zs" and "(k, Inr sub) \<in> set zs"
  shows "size (hd sub) < size (PDict d0)"
proof -
  from assms(1) obtain ds where ds: "mapM as_dict (PDict d0 # rest) = Inr ds"
    and zs: "zs = map (\<lambda>k. (k, mapM (\<lambda>d. dict_getitem d k) ds))
                    (remdups (concat (map (map fst) ds)))"
    by (auto simp: zip_dict_def split: sum.splits)
  from ds obtain ds' where ds': "ds = d0 # ds'"
    by (auto split: sum.splits)
  from assms(2) zs have "mapM (\<lambda>d. dict_getitem d k) ds = Inr sub"
    by auto
  with ds' have "dict_getitem d0 k = Inr (hd sub)"
    by (auto split: sum.splits)
  then have "map_of d0 k = Some (hd sub)"
    by (auto simp: dict_getitem_def split: option.splits)
  then show ?thesis
    using size_map_of by fastforce
qed

text \<open>\<^verbatim>\<open>_stack_nested(sequence_elements)\<close> of \<^verbatim>\<open>encode_example\<close>.\<close>

function stack_nested :: "(pyval list \<Rightarrow> error + ndarray) \<Rightarrow> pyval list \<Rightarrow> error + pyval" where
  "stack_nested np_stack_coerce sequence_elements =
     (case sequence_elements of
        [] \<Rightarrow> Inl IndexError
      | e0 # rest \<Rightarrow>
          if is_dict e0 then
            (case zip_dict sequence_elements of
               Inl e \<Rightarrow> Inl e
             | Inr zs \<Rightarrow>
                 (case mapM (\<lambda>(k, r). case r of
                                         Inl e \<Rightarrow> Inl e
                                       | Inr sub_sequence \<Rightarrow>
                                           (case stack_nested np_stack_coerce sub_sequence of
                                              Inl e \<Rightarrow> Inl e
                                            | Inr v \<Rightarrow> Inr (k, v))) zs of
                    Inl e \<Rightarrow> Inl e
                  | Inr kvs \<Rightarrow> Inr (PDict kvs)))
          else stack_arrays np_stack_coerce sequence_elements)"
  by pat_completeness auto
termination
proof (relation "measure (\<lambda>(c, es). size (hd es))")
  show "wf (measure (\<lambda>(c :: pyval list \<Rightarrow> error + ndarray, es). size (hd es)))"
    by simp
next
  fix c :: "pyval list \<Rightarrow> error + ndarray"
  fix sequence_elements e0 rest zs x k r sub
  assume "sequence_elements = e0 # rest" "is_dict e0" "zip_dict sequence_elements = Inr zs"
    "x \<in> set zs" "(k, r) = x" "r = Inr sub"
  then show "((c, sub), (c, sequence_elements)) \<in> measure (\<lambda>(c, es). size (hd es))"
    using zip_dict_hd_smaller[of _ rest zs k sub] by (cases e0) auto
qed

declare stack_nested.simps [simp del]

subsection \<open>The class Sequence\<close>

text \<open>
  The arguments of a call, \<^verbatim>\<open>*args\<close> and \<^verbatim>\<open>**kwargs\<close>.
\<close>

type_synonym call_args = "pyval list \<times> (string \<times> pyval) list"

text \<open>
  The inner feature, a \<^verbatim>\<open>FeatureConnector\<close>, through the methods that \<^verbatim>\<open>Sequence\<close>
  calls. Its two descriptions are nested structures of \<^verbatim>\<open>TensorInfo\<close>. Encoding and
  decoding an example return a value or raise. Saving and loading metadata act on the
  world \<open>'w\<close> outside the \<^verbatim>\<open>Sequence\<close> object (the files, and the state the inner feature
  keeps for itself): they return the world they leave behind, also when they raise.
\<close>

record 'w feature_connector =
  fc_get_tensor_info :: "tensor_info nested"
  fc_get_serialized_info :: "tensor_info nested"
  fc_encode_example :: "pyval \<Rightarrow> error + pyval"
  fc_decode_example :: "pyval \<Rightarrow> error + pyval"
  fc_save_metadata :: "call_args \<Rightarrow> 'w \<Rightarrow> (error + pyval) \<times> 'w"
  fc_load_metadata :: "call_args \<Rightarrow> 'w \<Rightarrow> (error + pyval) \<times> 'w"

text \<open>The attributes of a \<^verbatim>\<open>Sequence\<close> object: \<^verbatim>\<open>self._feature\<close> and \<^verbatim>\<open>self._length\<close>.\<close>

record 'w sequence =
  self_feature :: "'w feature_connector"
  self_length :: "nat option"

text \<open>
  \<^verbatim>\<open>Sequence.__init__(feature, length)\<close>, for a feature that \<^verbatim>\<open>to_feature\<close> has
  already turned into a \<^verbatim>\<open>FeatureConnector\<close>.
\<close>

definition init :: "'w feature_connector \<Rightarrow> nat option \<Rightarrow> 'w sequence" where
  "init feature_arg length_arg = \<lparr>self_feature = feature_arg, self_length = length_arg\<rparr>"

text \<open>The property \<^verbatim>\<open>Sequence.feature\<close>.\<close>

definition feature :: "'w sequence \<Rightarrow> 'w feature_connector" where
  "feature self = self_feature self"

text \<open>
  \<^verbatim>\<open>add_length_dim\<close> of \<^verbatim>\<open>get_tensor_info\<close>: a copy of the description with the length
  put in front of its shape.
\<close>

definition add_length_dim_copy :: "'w sequence \<Rightarrow> tensor_info \<Rightarrow> tensor_info" where
  "add_length_dim_copy self ti = ti\<lparr>shape := self_length self # shape ti\<rparr>"

definition get_tensor_info :: "'w sequence \<Rightarrow> tensor_info nested" where
  "get_tensor_info self = map_nested (add_length_dim_copy self) (fc_get_tensor_info (self_feature self))"

text \<open>\<^verbatim>\<open>add_length_dim\<close> of \<^verbatim>\<open>get_serialized_info\<close>: a new description.\<close>

definition add_length_dim :: "'w sequence \<Rightarrow> tensor_info \<Rightarrow> tensor_info" where
  "add_length_dim self ti = \<lparr>shape = self_length self # shape ti, dtype = dtype ti\<rparr>"

definition get_serialized_info :: "'w sequence \<Rightarrow> tensor_info nested" where
  "get_serialized_info self = map_nested (add_length_dim self) (fc_get_serialized_info (self_feature self))"

text \<open>\<^verbatim>\<open>_build_empty_np(serialized_info)\<close> of \<^verbatim>\<open>encode_example\<close>.\<close>

definition build_empty_np :: "tensor_info \<Rightarrow> pyval" where
  "build_empty_np serialized_info =
     np_empty (map (\<lambda>s. case s of None \<Rightarrow> 0 | Some n \<Rightarrow> if n \<noteq> 0 then n else 0)
                 (shape serialized_info))
       (as_numpy_dtype (dtype serialized_info))"

text \<open>\<^verbatim>\<open>Sequence.encode_example(example_dict)\<close>.\<close>

definition encode_example ::
  "(pyval list \<Rightarrow> error + ndarray) \<Rightarrow> 'w sequence \<Rightarrow> pyval \<Rightarrow> error + pyval" where
  "encode_example np_stack_coerce self example_dict =
     (case transpose_dict_list example_dict of
        Inl e \<Rightarrow> Inl e
      | Inr sequence_elements \<Rightarrow>
          (case (case self_length self of
                   None \<Rightarrow> None
                 | Some l \<Rightarrow>
                     if length sequence_elements \<noteq> l
                     then Some (SequenceLengthError (length sequence_elements) l)
                     else None) of
             Some e \<Rightarrow> Inl e
           | None \<Rightarrow>
               if sequence_elements = [] then
                 Inr (nested_to_pyval (map_nested build_empty_np (get_serialized_info self)))
               else
                 (case mapM (fc_encode_example (feature self)) sequence_elements of
                    Inl e \<Rightarrow> Inl e
                  | Inr encoded \<Rightarrow> stack_nested np_stack_coerce encoded)))"

text \<open>
  \<^verbatim>\<open>Sequence.decode_example(tfexample_dict)\<close>: one call of \<^verbatim>\<open>tf.map_fn\<close>, which belongs
  to TensorFlow and is the parameter \<open>tf_map_fn\<close>. Modelled from the spec: the property
  \<^verbatim>\<open>dtype\<close> of the base class is not part of the module; it is the element types of the
  tensor-info description.
\<close>

definition decode_example ::
  "((pyval \<Rightarrow> error + pyval) \<Rightarrow> pyval \<Rightarrow> tf_dtype nested \<Rightarrow> error + pyval) \<Rightarrow>
   'w sequence \<Rightarrow> pyval \<Rightarrow> error + pyval" where
  "decode_example tf_map_fn self tfexample_dict =
     tf_map_fn (fc_decode_example (feature self)) tfexample_dict
       (map_nested dtype (get_tensor_info self))"

text \<open>
  \<^verbatim>\<open>Sequence.save_metadata(*args, **kwargs)\<close> and \<^verbatim>\<open>load_metadata\<close>: the call of the
  inner feature is a statement, so what it returns is dropped and the method returns
  \<^verbatim>\<open>None\<close>.
\<close>

definition save_metadata :: "'w sequence \<Rightarrow> call_args \<Rightarrow> 'w \<Rightarrow> (error + pyval) \<times> 'w" where
  "save_metadata self args w =
     (case fc_save_metadata (self_feature self) args w of
        (Inl e, w') \<Rightarrow> (Inl e, w')
      | (Inr r, w') \<Rightarrow> (Inr PNone, w'))"

definition load_metadata :: "'w sequence \<Rightarrow> call_args \<Rightarrow> 'w \<Rightarrow> (error + pyval) \<times> 'w" where
  "load_metadata self args w =
     (case fc_load_metadata (self_feature self) args w of
        (Inl e, w') \<Rightarrow> (Inl e, w')
      | (Inr r, w') \<Rightarrow> (Inr PNone, w'))"

subsection \<open>Sequence objects in a store\<close>

text \<open>
  The methods once more, as Python runs them: \<^verbatim>\<open>self\<close> is a reference to an object whose
  attributes lie in a store, every method takes the state of the program and returns the
  state it leaves behind, also when it raises, and an assignment to an attribute is an
  update of the store. The state has two parts. \<open>objects\<close> gives, for every address, the
  attributes of the \<^verbatim>\<open>Sequence\<close> object there, \<^verbatim>\<open>_feature\<close> a reference to the inner
  feature and \<^verbatim>\<open>_length\<close>; an address without such attributes gives \<open>None\<close>. \<open>world\<close>
  is everything else: the attributes of the inner features, the files.
\<close>

type_synonym addr = nat

record sequence_attrs =
  attr_feature :: addr
  attr_length :: "nat option"

record 'w program =
  objects :: "addr \<Rightarrow> sequence_attrs option"
  world :: 'w

text \<open>
  The methods of an inner feature. Modelled from the spec: the inner feature is an opaque
  collaborator that the \<^verbatim>\<open>Sequence\<close> owns exclusively, with no reference back to its
  owner, so its methods read and write the world and not the attributes of a
  \<^verbatim>\<open>Sequence\<close> object. All six may change the world, and what they return may depend
  on it.
\<close>

record 'w inner_feature =
  in_get_tensor_info :: "'w \<Rightarrow> tensor_info nested \<times> 'w"
  in_get_serialized_info :: "'w \<Rightarrow> tensor_info nested \<times> 'w"
  in_encode_example :: "pyval \<Rightarrow> 'w \<Rightarrow> (error + pyval) \<times> 'w"
  in_decode_example :: "pyval \<Rightarrow> 'w \<Rightarrow> (error + pyval) \<times> 'w"
  in_save_metadata :: "call_args \<Rightarrow> 'w \<Rightarrow> (error + pyval) \<times> 'w"
  in_load_metadata :: "call_args \<Rightarrow> 'w \<Rightarrow> (error + pyval) \<times> 'w"

text \<open>A call of code that acts on the world, from a state of the program.\<close>

definition call_inner :: "('w \<Rightarrow> 'r \<times> 'w) \<Rightarrow> 'w program \<Rightarrow> 'r \<times> 'w program" where
  "call_inner m st = (case m (world st) of (r, w') \<Rightarrow> (r, st\<lparr>world := w'\<rparr>))"

text \<open>
  The reads \<^verbatim>\<open>self._feature\<close> and \<^verbatim>\<open>self._length\<close>, which raise for an object without
  the attribute, and the assignment of the two attributes of an object.
\<close>

definition get_feature_attr :: "'w program \<Rightarrow> addr \<Rightarrow> error + addr" where
  "get_feature_attr st self =
     (case objects st self of
        None \<Rightarrow> Inl (AttributeError ''_feature'')
      | Some attrs \<Rightarrow> Inr (attr_feature attrs))"

definition get_length_attr :: "'w program \<Rightarrow> addr \<Rightarrow> error + nat option" where
  "get_length_attr st self =
     (case objects st self of
        None \<Rightarrow> Inl (AttributeError ''_length'')
      | Some attrs \<Rightarrow> Inr (attr_length attrs))"

definition set_attrs :: "addr \<Rightarrow> sequence_attrs \<Rightarrow> 'w program \<Rightarrow> 'w program" where
  "set_attrs self attrs st = st\<lparr>objects := (objects st)(self \<mapsto> attrs)\<rparr>"

text \<open>
  \<^verbatim>\<open>Sequence.__init__(feature, length)\<close> on the new object \<open>self\<close>, for a feature that
  \<^verbatim>\<open>to_feature\<close> has already turned into the object at \<open>feature_arg\<close>: the two
  assignments of the constructor. The constructor of the base class, which it calls
  last, is not part of the module.
\<close>

definition obj_init :: "addr \<Rightarrow> addr \<Rightarrow> nat option \<Rightarrow> 'w program \<Rightarrow> 'w program" where
  "obj_init self feature_arg length_arg st =
     set_attrs self \<lparr>attr_feature = feature_arg, attr_length = length_arg\<rparr> st"

text \<open>
  A list comprehension or a loop over calls that change the state: it stops at the
  first call that raises, in the state that call left.
\<close>

fun mapM_io :: "('a \<Rightarrow> 's \<Rightarrow> (error + 'b) \<times> 's) \<Rightarrow> 'a list \<Rightarrow> 's \<Rightarrow> (error + 'b list) \<times> 's" where
  "mapM_io f [] s = (Inr [], s)"
| "mapM_io f (x # xs) s =
     (case f x s of
        (Inl e, s1) \<Rightarrow> (Inl e, s1)
      | (Inr y, s1) \<Rightarrow>
          (case mapM_io f xs s1 of
             (Inl e, s2) \<Rightarrow> (Inl e, s2)
           | (Inr ys, s2) \<Rightarrow> (Inr (y # ys), s2)))"

text \<open>
  \<^verbatim>\<open>Sequence.get_tensor_info()\<close>. \<open>classes\<close> gives the methods of the object at an
  address. \<^verbatim>\<open>add_length_dim\<close> reads \<^verbatim>\<open>self._length\<close> at every leaf, in the state the
  inner feature left, so a description without leaves is returned without the read.
\<close>

fun nested_leaves :: "'a nested \<Rightarrow> 'a list" where
  "nested_leaves (Leaf x) = [x]"
| "nested_leaves (Struct kvs) = concat (map (\<lambda>(k, t). nested_leaves t) kvs)"

definition obj_get_tensor_info ::
  "(addr \<Rightarrow> 'w inner_feature) \<Rightarrow> addr \<Rightarrow> 'w program \<Rightarrow> (error + tensor_info nested) \<times> 'w program" where
  "obj_get_tensor_info classes self st =
     (case get_feature_attr st self of
        Inl e \<Rightarrow> (Inl e, st)
      | Inr b \<Rightarrow>
          (case call_inner (in_get_tensor_info (classes b)) st of
             (tensor_info, st1) \<Rightarrow>
               (case get_length_attr st1 self of
                  Inl e \<Rightarrow>
                    if nested_leaves tensor_info = []
                    then (Inr (map_nested (\<lambda>ti. ti) tensor_info), st1)
                    else (Inl e, st1)
                | Inr l \<Rightarrow>
                    (Inr (map_nested (\<lambda>ti. ti\<lparr>shape := l # shape ti\<rparr>) tensor_info), st1))))"

text \<open>\<^verbatim>\<open>Sequence.get_serialized_info()\<close>.\<close>

definition obj_get_serialized_info ::
  "(addr \<Rightarrow> 'w inner_feature) \<Rightarrow> addr \<Rightarrow> 'w program \<Rightarrow> (error + tensor_info nested) \<times> 'w program" where
  "obj_get_serialized_info classes self st =
     (case get_feature_attr st self of
        Inl e \<Rightarrow> (Inl e, st)
      | Inr b \<Rightarrow>
          (case call_inner (in_get_serialized_info (classes b)) st of
             (tensor_info, st1) \<Rightarrow>
               (case get_length_attr st1 self of
                  Inl e \<Rightarrow>
                    if nested_leaves tensor_info = []
                    then (Inr (map_nested (\<lambda>ti. ti) tensor_info), st1)
                    else (Inl e, st1)
                | Inr l \<Rightarrow>
                    (Inr (map_nested (\<lambda>ti. \<lparr>shape = l # shape ti, dtype = dtype ti\<rparr>) tensor_info),
                     st1))))"

text \<open>
  \<^verbatim>\<open>Sequence.encode_example(example_dict)\<close>. The property \<^verbatim>\<open>self.feature\<close> is read
  again for every step of the sequence.
\<close>

definition obj_encode_example ::
  "(pyval list \<Rightarrow> error + ndarray) \<Rightarrow> (addr \<Rightarrow> 'w inner_feature) \<Rightarrow> addr \<Rightarrow> pyval \<Rightarrow>
   'w program \<Rightarrow> (error + pyval) \<times> 'w program" where
  "obj_encode_example np_stack_coerce classes self example_dict st =
     (case transpose_dict_list example_dict of
        Inl e \<Rightarrow> (Inl e, st)
      | Inr sequence_elements \<Rightarrow>
          (case get_length_attr st self of
             Inl e \<Rightarrow> (Inl e, st)
           | Inr length_attr \<Rightarrow>
               (case (case length_attr of
                        None \<Rightarrow> None
                      | Some l \<Rightarrow>
                          if length sequence_elements \<noteq> l
                          then Some (SequenceLengthError (length sequence_elements) l)
                          else None) of
                  Some e \<Rightarrow> (Inl e, st)
                | None \<Rightarrow>
                    if sequence_elements = [] then
                      (case obj_get_serialized_info classes self st of
                         (Inl e, st1) \<Rightarrow> (Inl e, st1)
                       | (Inr info, st1) \<Rightarrow>
                           (Inr (nested_to_pyval (map_nested build_empty_np info)), st1))
                    else
                      (case mapM_io
                              (\<lambda>sequence_elem u.
                                 case get_feature_attr u self of
                                   Inl e \<Rightarrow> (Inl e, u)
                                 | Inr b \<Rightarrow>
                                     call_inner (in_encode_example (classes b) sequence_elem) u)
                              sequence_elements st of
                         (Inl e, st1) \<Rightarrow> (Inl e, st1)
                       | (Inr encoded, st1) \<Rightarrow> (stack_nested np_stack_coerce encoded, st1)))))"

text \<open>
  \<^verbatim>\<open>Sequence.decode_example(tfexample_dict)\<close>. The arguments of \<^verbatim>\<open>tf.map_fn\<close> are
  evaluated in their order: the bound method \<^verbatim>\<open>self.feature.decode_example\<close>, then
  \<^verbatim>\<open>self.dtype\<close>. Modelled from the spec: the property \<^verbatim>\<open>dtype\<close> of the base class is
  not part of the module; it is the element types of \<^verbatim>\<open>self.get_tensor_info()\<close>.
  \<^verbatim>\<open>tf.map_fn\<close> belongs to TensorFlow and is the parameter \<open>tf_map_fn\<close>: it is given the
  method of the inner feature and acts, as that method does, on the world.
\<close>

type_synonym 'w tf_map_fn_type =
  "(pyval \<Rightarrow> 'w \<Rightarrow> (error + pyval) \<times> 'w) \<Rightarrow> pyval \<Rightarrow> tf_dtype nested \<Rightarrow> 'w \<Rightarrow> (error + pyval) \<times> 'w"

definition obj_decode_example ::
  "'w tf_map_fn_type \<Rightarrow> (addr \<Rightarrow> 'w inner_feature) \<Rightarrow> addr \<Rightarrow> pyval \<Rightarrow>
   'w program \<Rightarrow> (error + pyval) \<times> 'w program" where
  "obj_decode_example tf_map_fn classes self tfexample_dict st =
     (case get_feature_attr st self of
        Inl e \<Rightarrow> (Inl e, st)
      | Inr b \<Rightarrow>
          (case obj_get_tensor_info classes self st of
             (Inl e, st1) \<Rightarrow> (Inl e, st1)
           | (Inr info, st1) \<Rightarrow>
               call_inner
                 (tf_map_fn (in_decode_example (classes b)) tfexample_dict (map_nested dtype info))
                 st1))"

text \<open>\<^verbatim>\<open>Sequence.save_metadata(*args, **kwargs)\<close> and \<^verbatim>\<open>load_metadata\<close>.\<close>

definition obj_save_metadata ::
  "(addr \<Rightarrow> 'w inner_feature) \<Rightarrow> addr \<Rightarrow> call_args \<Rightarrow> 'w program \<Rightarrow> (error + pyval) \<times> 'w program" where
  "obj_save_metadata classes self args st =
     (case get_feature_attr st self of
        Inl e \<Rightarrow> (Inl e, st)
      | Inr b \<Rightarrow>
          (case call_inner (in_save_metadata (classes b) args) st of
             (Inl e, st1) \<Rightarrow> (Inl e, st1)
           | (Inr r, st1) \<Rightarrow> (Inr PNone, st1)))"

definition obj_load_metadata ::
  "(addr \<Rightarrow> 'w inner_feature) \<Rightarrow> addr \<Rightarrow> call_args \<Rightarrow> 'w program \<Rightarrow> (error + pyval) \<times> 'w program" where
  "obj_load_metadata classes self args st =
     (case get_feature_attr st self of
        Inl e \<Rightarrow> (Inl e, st)
      | Inr b \<Rightarrow>
          (case call_inner (in_load_metadata (classes b) args) st of
             (Inl e, st1) \<Rightarrow> (Inl e, st1)
           | (Inr r, st1) \<Rightarrow> (Inr PNone, st1)))"

text \<open>
  A call of one of the six methods, and the state after a list of calls on one object,
  each from the state the call before it left, whether it returned or raised.
\<close>

datatype method_call =
    GetTensorInfo
  | GetSerializedInfo
  | EncodeExample pyval
  | DecodeExample pyval
  | SaveMetadata call_args
  | LoadMetadata call_args

fun call_method ::
  "(pyval list \<Rightarrow> error + ndarray) \<Rightarrow> 'w tf_map_fn_type \<Rightarrow> (addr \<Rightarrow> 'w inner_feature) \<Rightarrow> addr \<Rightarrow>
   method_call \<Rightarrow> 'w program \<Rightarrow> 'w program" where
  "call_method c tfm classes self GetTensorInfo st = snd (obj_get_tensor_info classes self st)"
| "call_method c tfm classes self GetSerializedInfo st = snd (obj_get_serialized_info classes self st)"
| "call_method c tfm classes self (EncodeExample x) st = snd (obj_encode_example c classes self x st)"
| "call_method c tfm classes self (DecodeExample x) st = snd (obj_decode_example tfm classes self x st)"
| "call_method c tfm classes self (SaveMetadata args) st = snd (obj_save_metadata classes self args st)"
| "call_method c tfm classes self (LoadMetadata args) st = snd (obj_load_metadata classes self args st)"

fun run_calls ::
  "(pyval list \<Rightarrow> error + ndarray) \<Rightarrow> 'w tf_map_fn_type \<Rightarrow> (addr \<Rightarrow> 'w inner_feature) \<Rightarrow> addr \<Rightarrow>
   method_call list \<Rightarrow> 'w program \<Rightarrow> 'w program" where
  "run_calls c tfm classes self [] st = st"
| "run_calls c tfm classes self (m # ms) st =
     run_calls c tfm classes self ms (call_method c tfm classes self m st)"

text \<open>
  An inner feature that keeps no state: the methods of a \<open>feature_connector\<close> as methods of
  an object.
\<close>

definition stateless :: "'w feature_connector \<Rightarrow> 'w inner_feature" where
  "stateless fc =
     \<lparr>in_get_tensor_info = (\<lambda>w. (fc_get_tensor_info fc, w)),
      in_get_serialized_info = (\<lambda>w. (fc_get_serialized_info fc, w)),
      in_encode_example = (\<lambda>x w. (fc_encode_example fc x, w)),
      in_decode_example = (\<lambda>x w. (fc_decode_example fc x, w)),
      in_save_metadata = fc_save_metadata fc,
      in_load_metadata = fc_load_metadata fc\<rparr>"

subsection \<open>Leaves, paths and sequences\<close>

text \<open>The leaves of a value in the order in which \<^verbatim>\<open>map_nested\<close> visits them: a dict is an
  inner node, every other value is a leaf.\<close>

fun leaves :: "pyval \<Rightarrow> pyval list" where
  "leaves (PDict kvs) = concat (map (\<lambda>(k, v). leaves v) kvs)"
| "leaves v = [v]"

text \<open>The value with a function applied to every leaf.\<close>

fun map_leaves :: "(pyval \<Rightarrow> pyval) \<Rightarrow> pyval \<Rightarrow> pyval" where
  "map_leaves g (PDict kvs) = PDict (map (\<lambda>(k, v). (k, map_leaves g v)) kvs)"
| "map_leaves g v = g v"

text \<open>The value reached by following a path of keys.\<close>

fun value_at :: "pyval \<Rightarrow> string list \<Rightarrow> pyval option" where
  "value_at v [] = Some v"
| "value_at (PDict kvs) (k # p) =
     (case map_of kvs k of None \<Rightarrow> None | Some v \<Rightarrow> value_at v p)"
| "value_at v (k # p) = None"

text \<open>The exception that a computation raised, if it raised one.\<close>

fun err_of :: "error + 'a \<Rightarrow> error option" where
  "err_of (Inl e) = Some e"
| "err_of (Inr y) = None"

text \<open>The cell of state after a function has been applied to the elements of a list in
  order, or the first exception.\<close>

fun foldM_st :: "('a \<Rightarrow> 's \<Rightarrow> error + 'b \<times> 's) \<Rightarrow> 'a list \<Rightarrow> 's \<Rightarrow> error + 's" where
  "foldM_st f [] s = Inr s"
| "foldM_st f (x # xs) s =
     (case f x s of Inl e \<Rightarrow> Inl e | Inr (y, s') \<Rightarrow> foldM_st f xs s')"

text \<open>The elements, in order, of a leaf that \<^verbatim>\<open>np_to_list\<close> accepts.\<close>

definition sequence_items :: "pyval \<Rightarrow> pyval list option" where
  "sequence_items x = (case np_to_list x of Inr (PList xs) \<Rightarrow> Some xs | _ \<Rightarrow> None)"

text \<open>The length of a leaf as a sequence: the number of those elements.\<close>

definition sequence_len :: "pyval \<Rightarrow> nat option" where
  "sequence_len x = map_option length (sequence_items x)"

text \<open>The element at one position of a leaf.\<close>

definition nth_item :: "nat \<Rightarrow> pyval \<Rightarrow> pyval" where
  "nth_item i x = (case sequence_items x of Some xs \<Rightarrow> xs ! i | None \<Rightarrow> x)"

text \<open>A stand-in for the conversions of \<^verbatim>\<open>np.stack\<close>, which refuses every argument.\<close>

definition no_coerce :: "pyval list \<Rightarrow> error + ndarray" where
  "no_coerce arrays = Inl (NumpyValueError ''conversion refused'')"

text \<open>A leaf after \<^verbatim>\<open>np_to_list\<close>.\<close>

definition coerced :: "pyval \<Rightarrow> pyval" where
  "coerced x = (case np_to_list x of Inr y \<Rightarrow> y | Inl e \<Rightarrow> x)"

text \<open>\<^verbatim>\<open>isinstance(elem, list)\<close> and \<^verbatim>\<open>isinstance(elem, tuple)\<close>.\<close>

fun is_list :: "pyval \<Rightarrow> bool" where
  "is_list (PList xs) = True"
| "is_list v = False"

fun is_tuple :: "pyval \<Rightarrow> bool" where
  "is_tuple (PTuple xs) = True"
| "is_tuple v = False"



subsection \<open>Concrete features\<close>

text \<open>
  A feature of two leaves, a frame and an action, whose encoder and decoder return their
  argument. It and the features below are the concrete inputs at which the theorems of
  the next sections are instantiated.
\<close>

definition frames_feature :: "unit feature_connector" where
  "frames_feature =
     \<lparr>fc_get_tensor_info =
        Struct [(''frame'', Leaf \<lparr>shape = [Some 64, Some 64, Some 3], dtype = DType ''uint8''\<rparr>),
                (''action'', Leaf \<lparr>shape = [], dtype = DType ''int64''\<rparr>)],
      fc_get_serialized_info =
        Struct [(''frame'', Leaf \<lparr>shape = [], dtype = DType ''string''\<rparr>),
                (''action'', Leaf \<lparr>shape = [], dtype = DType ''int64''\<rparr>)],
      fc_encode_example = (\<lambda>v. Inr v),
      fc_decode_example = (\<lambda>v. Inr v),
      fc_save_metadata = (\<lambda>args w. (Inr PNone, w)),
      fc_load_metadata = (\<lambda>args w. (Inr PNone, w))\<rparr>"

text \<open>
  A feature of one leaf of 3 by 3 numbers whose encoder raises whenever it is called.
\<close>

definition images_feature :: "unit feature_connector" where
  "images_feature =
     \<lparr>fc_get_tensor_info = Leaf \<lparr>shape = [Some 3, Some 3], dtype = DType ''float32''\<rparr>,
      fc_get_serialized_info = Leaf \<lparr>shape = [Some 3, None], dtype = DType ''float32''\<rparr>,
      fc_encode_example = (\<lambda>v. Inl (FeatureError ''encoder called'')),
      fc_decode_example = (\<lambda>v. Inr v),
      fc_save_metadata = (\<lambda>args w. (Inr PNone, w)),
      fc_load_metadata = (\<lambda>args w. (Inr PNone, w))\<rparr>"

text \<open>Concrete examples: a zero-dimensional array, and structures of sequences.\<close>

definition zero_dim_array :: pyval where
  "zero_dim_array = PArray (NpDType ''int64'') [] [PInt 5]"

definition ragged_lists :: pyval where
  "ragged_lists =
     PDict [(''a'', PList [PInt 1, PInt 2, PInt 3]),
            (''b'', PTuple [PInt 1, PInt 2, PInt 3, PInt 4, PInt 5])]"

definition mixed_leaves :: pyval where
  "mixed_leaves =
     PDict [(''a'', PList [PInt 1, PInt 2, PInt 3]), (''b'', PList [PInt 1]), (''c'', PInt 7)]"

definition four_steps :: pyval where
  "four_steps = PDict [(''a'', PList [PInt 1, PInt 2, PInt 3, PInt 4])]"

definition empty_steps :: pyval where
  "empty_steps = PDict [(''frame'', PList []), (''action'', PArray (NpDType ''int64'') [0] [])]"

definition bad_leaf :: pyval where
  "bad_leaf = PDict [(''frame'', PList [PInt 1]), (''action'', PInt 7)]"

text \<open>
  A feature whose metadata methods record the arguments of every call in the world, a
  list of calls; saving returns a value and loading raises.
\<close>

definition recording_feature :: "call_args list feature_connector" where
  "recording_feature =
     \<lparr>fc_get_tensor_info = Leaf \<lparr>shape = [], dtype = DType ''int64''\<rparr>,
      fc_get_serialized_info = Leaf \<lparr>shape = [], dtype = DType ''int64''\<rparr>,
      fc_encode_example = (\<lambda>v. Inr v),
      fc_decode_example = (\<lambda>v. Inr v),
      fc_save_metadata = (\<lambda>args w. (Inr (PStr ''saved''), w @ [args])),
      fc_load_metadata = (\<lambda>args w. (Inl (FeatureError ''no metadata file''), w @ [args]))\<rparr>"

definition metadata_args :: call_args where
  "metadata_args = ([PStr ''/data'', PStr ''frames''], [])"

text \<open>Three arrays of one dimension, two of them of one shape.\<close>

definition vector_a :: pyval where
  "vector_a = PArray (NpDType ''int64'') [2] [PInt 1, PInt 2]"

definition vector_b :: pyval where
  "vector_b = PArray (NpDType ''int64'') [2] [PInt 3, PInt 4]"

definition vector_c :: pyval where
  "vector_c = PArray (NpDType ''int64'') [3] [PInt 5, PInt 6, PInt 7]"



text \<open>
  A feature whose names are loaded with the metadata: the world is the number of names
  it knows, its descriptions depend on that number, and loading the metadata sets the
  number to 10. Encoding and decoding return the value they are given.
\<close>

definition label_feature :: "nat inner_feature" where
  "label_feature =
     \<lparr>in_get_tensor_info = (\<lambda>w. (Leaf \<lparr>shape = [Some w], dtype = DType ''int64''\<rparr>, w)),
      in_get_serialized_info = (\<lambda>w. (Leaf \<lparr>shape = [Some w], dtype = DType ''int64''\<rparr>, w)),
      in_encode_example = (\<lambda>x w. (Inr x, w)),
      in_decode_example = (\<lambda>x w. (Inr x, w)),
      in_save_metadata = (\<lambda>args w. (Inr PNone, w)),
      in_load_metadata = (\<lambda>args w. (Inr PNone, 10))\<rparr>"

text \<open>A state without any \<^verbatim>\<open>Sequence\<close> object, in which the feature knows no name.\<close>

definition fresh_program :: "nat program" where
  "fresh_program = \<lparr>objects = (\<lambda>a. None), world = 0\<rparr>"

text \<open>A stand-in for \<^verbatim>\<open>tf.map_fn\<close>, which raises.\<close>

definition no_map_fn :: "nat tf_map_fn_type" where
  "no_map_fn fn elems dtypes w = (Inl (FeatureError ''tf.map_fn''), w)"

section \<open>Properties\<close>

subsection \<open>The derived descriptions\<close>

lemma leaf_at_map_nested: "leaf_at (map_nested f t) p = map_option f (leaf_at t p)"
proof (induction p arbitrary: t)
  case Nil
  then show ?case by (cases t) auto
next
  case (Cons k p)
  show ?case
  proof (cases t)
    case (Leaf x)
    then show ?thesis by simp
  next
    case (Struct kvs)
    have "map_of (map (\<lambda>(k, v). (k, map_nested f v)) kvs) k =
          map_option (map_nested f) (map_of kvs k)"
      by (simp add: map_of_map)
    with Struct Cons.IH show ?thesis
      by (auto split: option.splits)
  qed
qed

lemma topology_map_nested: "topology (map_nested f t) = topology t"
  unfolding topology_def
  by (induction t rule: map_nested.induct[of _ f]) auto

text \<open>
  Claim C1. For every inner feature, \<^verbatim>\<open>get_tensor_info\<close> and \<^verbatim>\<open>get_serialized_info\<close>
  return a structure of the same topology as the description of the inner feature, and
  at every path at which that description has a leaf of shape \<open>S\<close> and element type \<open>d\<close>
  they have a leaf of shape \<open>self_length self # S\<close> and element type \<open>d\<close>: the first
  dimension is \<open>Some L\<close> when the length \<open>L\<close> was configured and \<open>None\<close>, the unknown
  dimension, when it was not.
\<close>

theorem description_shapes:
  "topology (get_tensor_info self) = topology (fc_get_tensor_info (self_feature self)) \<and>
   topology (get_serialized_info self) = topology (fc_get_serialized_info (self_feature self)) \<and>
   (\<forall>p ti. leaf_at (fc_get_tensor_info (self_feature self)) p = Some ti \<longrightarrow>
      leaf_at (get_tensor_info self) p =
        Some \<lparr>shape = self_length self # shape ti, dtype = dtype ti\<rparr>) \<and>
   (\<forall>p ti. leaf_at (fc_get_serialized_info (self_feature self)) p = Some ti \<longrightarrow>
      leaf_at (get_serialized_info self) p =
        Some \<lparr>shape = self_length self # shape ti, dtype = dtype ti\<rparr>)"
  by (simp add: get_tensor_info_def get_serialized_info_def topology_map_nested
      leaf_at_map_nested add_length_dim_copy_def add_length_dim_def)

theorem description_shapes_witness:
  "leaf_at (fc_get_tensor_info (self_feature (init frames_feature (Some 5)))) [''frame''] =
     Some \<lparr>shape = [Some 64, Some 64, Some 3], dtype = DType ''uint8''\<rparr> \<and>
   leaf_at (get_tensor_info (init frames_feature (Some 5))) [''frame''] =
     Some \<lparr>shape = [Some 5, Some 64, Some 64, Some 3], dtype = DType ''uint8''\<rparr> \<and>
   leaf_at (fc_get_serialized_info (self_feature (init frames_feature None))) [''action''] =
     Some \<lparr>shape = [], dtype = DType ''int64''\<rparr> \<and>
   leaf_at (get_serialized_info (init frames_feature None)) [''action''] =
     Some \<lparr>shape = [None], dtype = DType ''int64''\<rparr>"
proof -
  have a: "leaf_at (fc_get_tensor_info (self_feature (init frames_feature (Some 5)))) [''frame''] =
     Some \<lparr>shape = [Some 64, Some 64, Some 3], dtype = DType ''uint8''\<rparr>"
    by (simp add: init_def frames_feature_def)
  have b: "leaf_at (fc_get_serialized_info (self_feature (init frames_feature None))) [''action''] =
     Some \<lparr>shape = [], dtype = DType ''int64''\<rparr>"
    by (simp add: init_def frames_feature_def)
  from a b description_shapes[of "init frames_feature (Some 5)"]
    description_shapes[of "init frames_feature None"]
  show ?thesis by (simp add: init_def)
qed

subsection \<open>Traversals\<close>

lemma leaves_not_dict: "x \<in> set (leaves d) \<Longrightarrow> \<not> is_dict x"
  by (induction d rule: leaves.induct) auto

lemma mapM_Inr: "(\<And>x. x \<in> set xs \<Longrightarrow> f x = Inr (g x)) \<Longrightarrow> mapM f xs = Inr (map g xs)"
  by (induction xs) auto

lemma mapM_first_error:
  "xs = pre @ x # post \<Longrightarrow> (\<And>y. y \<in> set pre \<Longrightarrow> \<exists>z. f y = Inr z) \<Longrightarrow> f x = Inl e \<Longrightarrow>
   mapM f xs = Inl e"
proof (induction pre arbitrary: xs)
  case Nil
  then show ?case by simp
next
  case (Cons a pre)
  from Cons.prems(2)[of a] obtain z where z: "f a = Inr z" by auto
  have "mapM f (pre @ x # post) = Inl e"
    using Cons.IH[OF refl] Cons.prems by auto
  with z Cons.prems(1) show ?case by simp
qed

lemma map_nested_dict_only_leaf: "\<not> is_dict v \<Longrightarrow> map_nested_dict_only f v = f v"
  by (cases v) auto

lemma map_nested_dict_only_Inr:
  "(\<And>x. x \<in> set (leaves d) \<Longrightarrow> f x = Inr (g x)) \<Longrightarrow>
   map_nested_dict_only f d = Inr (map_leaves g d)"
proof (induction d rule: leaves.induct)
  case (1 kvs)
  have "mapM (\<lambda>(k, v). case map_nested_dict_only f v of Inl e \<Rightarrow> Inl e | Inr v' \<Rightarrow> Inr (k, v')) kvs
        = Inr (map (\<lambda>(k, v). (k, map_leaves g v)) kvs)"
  proof (rule mapM_Inr)
    fix x assume x: "x \<in> set kvs"
    obtain k v where kv: "x = (k, v)" by (cases x)
    have "map_nested_dict_only f v = Inr (map_leaves g v)"
      using "1.IH"[OF x kv[symmetric]] "1.prems" x kv by fastforce
    with kv show "(case x of (k, v) \<Rightarrow> case map_nested_dict_only f v of Inl e \<Rightarrow> Inl e | Inr v' \<Rightarrow> Inr (k, v'))
       = Inr (case x of (k, v) \<Rightarrow> (k, map_leaves g v))" by simp
  qed
  then show ?case by simp
qed auto

lemma err_of_mapM_Cons:
  "err_of (mapM f (x # xs)) = (case err_of (f x) of Some e \<Rightarrow> Some e | None \<Rightarrow> err_of (mapM f xs))"
  by (auto split: sum.splits)

lemma err_of_mapM_append:
  "err_of (mapM f (xs @ ys)) =
     (case err_of (mapM f xs) of Some e \<Rightarrow> Some e | None \<Rightarrow> err_of (mapM f ys))"
  by (induction xs) (auto split: sum.splits option.splits)

lemma err_of_map_nested_dict_only:
  "err_of (map_nested_dict_only f d) = err_of (mapM f (leaves d))"
proof (induction d rule: leaves.induct)
  case (1 kvs)
  let ?h = "\<lambda>(k, v). case map_nested_dict_only f v of Inl e \<Rightarrow> Inl e | Inr v' \<Rightarrow> Inr (k, v')"
  have IH: "\<And>k v. (k, v) \<in> set kvs \<Longrightarrow>
      err_of (map_nested_dict_only f v) = err_of (mapM f (leaves v))"
    by (rule "1.IH") simp_all
  have "err_of (mapM ?h kvs) = err_of (mapM f (concat (map (\<lambda>(k, v). leaves v) kvs)))"
    using IH
  proof (induction kvs)
    case Nil
    then show ?case by simp
  next
    case (Cons kv kvs)
    obtain k v where kv: "kv = (k, v)" by (cases kv)
    have "err_of (map_nested_dict_only f v) = err_of (mapM f (leaves v))"
      by (rule Cons.prems[of k v]) (simp add: kv)
    then have a: "err_of (?h kv) = err_of (mapM f (leaves v))"
      unfolding kv by (cases "map_nested_dict_only f v") simp_all
    have b: "err_of (mapM ?h kvs) = err_of (mapM f (concat (map (\<lambda>(k, v). leaves v) kvs)))"
      by (rule Cons.IH) (rule Cons.prems, rule list.set_intros(2))
    show ?case
      unfolding err_of_mapM_Cons a b using kv by (simp add: err_of_mapM_append)
  qed
  then show ?case by (auto split: sum.splits)
qed (auto split: sum.splits)

lemma map_nested_dict_only_first_error:
  assumes "leaves d = pre @ x # post" and "\<And>y. y \<in> set pre \<Longrightarrow> \<exists>z. f y = Inr z" and "f x = Inl e"
  shows "map_nested_dict_only f d = Inl e"
proof -
  have "mapM f (leaves d) = Inl e"
    using assms by (rule mapM_first_error)
  then have "err_of (map_nested_dict_only f d) = Some e"
    by (simp add: err_of_map_nested_dict_only)
  then show ?thesis by (cases "map_nested_dict_only f d") auto
qed

lemma foldM_st_append:
  "foldM_st f (xs @ ys) s =
     (case foldM_st f xs s of Inl e \<Rightarrow> Inl e | Inr s' \<Rightarrow> foldM_st f ys s')"
  by (induction xs arbitrary: s) (auto split: sum.splits)

lemma map_nested_dict_only_st_state:
  "map_sum id snd (map_nested_dict_only_st f d s) = foldM_st f (leaves d) s"
proof (induction d arbitrary: s rule: leaves.induct)
  case (1 kvs)
  let ?h = "\<lambda>(k, v) u. case map_nested_dict_only_st f v u of
                          Inl e \<Rightarrow> Inl e | Inr (v', u') \<Rightarrow> Inr ((k, v'), u')"
  have IH: "\<And>k v u. (k, v) \<in> set kvs \<Longrightarrow>
      map_sum id snd (map_nested_dict_only_st f v u) = foldM_st f (leaves v) u"
    by (rule "1.IH") simp_all
  have "map_sum id snd (mapM_st ?h kvs s) = foldM_st f (concat (map (\<lambda>(k, v). leaves v) kvs)) s"
    using IH
  proof (induction kvs arbitrary: s)
    case Nil
    then show ?case by simp
  next
    case (Cons kv kvs)
    obtain k v where kv: "kv = (k, v)" by (cases kv)
    have a: "\<And>u. map_sum id snd (map_nested_dict_only_st f v u) = foldM_st f (leaves v) u"
      by (rule Cons.prems[of k v]) (simp add: kv)
    have b: "\<And>u. map_sum id snd (mapM_st ?h kvs u) = foldM_st f (concat (map (\<lambda>(k, v). leaves v) kvs)) u"
      by (rule Cons.IH) (rule Cons.prems, rule list.set_intros(2))
    show ?case
    proof (cases "map_nested_dict_only_st f v s")
      case (Inl e)
      with a[of s] have fv: "foldM_st f (leaves v) s = Inl e" by simp
      show ?thesis
        using Inl kv fv by (simp add: foldM_st_append)
    next
      case (Inr r)
      obtain v' u' where r: "r = (v', u')" by (cases r)
      with Inr a[of s] have fv: "foldM_st f (leaves v) s = Inr u'" by simp
      show ?thesis
        using Inr r kv fv b[of u']
        by (cases "mapM_st ?h kvs u'") (auto simp: foldM_st_append)
    qed
  qed
  then show ?case by (auto split: sum.splits)
qed (auto split: sum.splits)

lemma np_to_list_Inr: "np_to_list x = Inr y \<Longrightarrow> \<exists>xs. y = PList xs"
  by (cases x) (auto elim: ndarray_to_list.elims)

lemma sequence_items_Some: "sequence_items x = Some xs \<longleftrightarrow> np_to_list x = Inr (PList xs)"
  by (auto simp: sequence_items_def split: sum.splits pyval.splits)

lemma sequence_len_Some:
  "sequence_len x = Some n \<longleftrightarrow> (\<exists>xs. np_to_list x = Inr (PList xs) \<and> length xs = n)"
  by (auto simp: sequence_len_def sequence_items_Some)

lemma leaves_leaf: "\<not> is_dict v \<Longrightarrow> leaves v = [v]"
  by (cases v) auto

lemma map_leaves_leaf: "\<not> is_dict v \<Longrightarrow> map_leaves h v = h v"
  by (cases v) auto

lemma leaves_map_leaves:
  "(\<And>x. x \<in> set (leaves d) \<Longrightarrow> \<not> is_dict (g x)) \<Longrightarrow> leaves (map_leaves g d) = map g (leaves d)"
proof (induction d rule: leaves.induct)
  case (1 kvs)
  have "\<And>k v. (k, v) \<in> set kvs \<Longrightarrow> leaves (map_leaves g v) = map g (leaves v)"
  proof -
    fix k v assume kv: "(k, v) \<in> set kvs"
    show "leaves (map_leaves g v) = map g (leaves v)"
    proof (rule "1.IH"[OF kv refl])
      fix x assume "x \<in> set (leaves v)"
      with kv have "x \<in> set (leaves (PDict kvs))" by auto
      then show "\<not> is_dict (g x)" by (rule "1.prems")
    qed
  qed
  then have "map (\<lambda>(k, v). leaves (map_leaves g v)) kvs = map (\<lambda>(k, v). map g (leaves v)) kvs"
    by auto
  then have "\<forall>x\<in>set kvs. leaves (map_leaves g (snd x)) = map g (leaves (snd x))"
    by auto
  then show ?case
    by (simp add: map_concat comp_def case_prod_unfold cong: map_cong)
qed (simp_all add: leaves_leaf)

lemma map_leaves_cong:
  "(\<And>x. x \<in> set (leaves d) \<Longrightarrow> g x = h x) \<Longrightarrow> map_leaves g d = map_leaves h d"
proof (induction d rule: leaves.induct)
  case (1 kvs)
  have "\<And>k v. (k, v) \<in> set kvs \<Longrightarrow> map_leaves g v = map_leaves h v"
  proof -
    fix k v assume kv: "(k, v) \<in> set kvs"
    show "map_leaves g v = map_leaves h v"
    proof (rule "1.IH"[OF kv refl])
      fix x assume "x \<in> set (leaves v)"
      with kv have "x \<in> set (leaves (PDict kvs))" by auto
      then show "g x = h x" by (rule "1.prems")
    qed
  qed
  then show ?case by auto
qed simp_all

lemma map_leaves_comp:
  "(\<And>x. x \<in> set (leaves d) \<Longrightarrow> \<not> is_dict (g x)) \<Longrightarrow>
   map_leaves h (map_leaves g d) = map_leaves (\<lambda>x. h (g x)) d"
proof (induction d rule: leaves.induct)
  case (1 kvs)
  have "\<And>k v. (k, v) \<in> set kvs \<Longrightarrow> map_leaves h (map_leaves g v) = map_leaves (\<lambda>x. h (g x)) v"
  proof -
    fix k v assume kv: "(k, v) \<in> set kvs"
    show "map_leaves h (map_leaves g v) = map_leaves (\<lambda>x. h (g x)) v"
    proof (rule "1.IH"[OF kv refl])
      fix x assume "x \<in> set (leaves v)"
      with kv have "x \<in> set (leaves (PDict kvs))" by auto
      then show "\<not> is_dict (g x)" by (rule "1.prems")
    qed
  qed
  then show ?case by (auto simp: comp_def)
qed (simp_all add: map_leaves_leaf)

lemma coerced_items: "sequence_items x = Some xs \<Longrightarrow> coerced x = PList xs"
  by (simp add: coerced_def sequence_items_Some)

lemma np_to_list_coerced: "sequence_len x \<noteq> None \<Longrightarrow> np_to_list x = Inr (coerced x)"
  by (auto simp: sequence_len_def sequence_items_Some coerced_def)

lemma coerced_not_dict: "sequence_len x \<noteq> None \<Longrightarrow> \<not> is_dict (coerced x)"
  by (auto simp: sequence_len_def coerced_items)

lemma coerce_pass:
  assumes "\<forall>x\<in>set (leaves ex). sequence_len x \<noteq> None"
  shows "map_nested_dict_only np_to_list ex = Inr (map_leaves coerced ex)"
    and "leaves (map_leaves coerced ex) = map coerced (leaves ex)"
  using assms
  by (auto intro!: map_nested_dict_only_Inr leaves_map_leaves
      simp: np_to_list_coerced coerced_not_dict)

lemma transpose_dict_list_eq:
  assumes "\<forall>x\<in>set (leaves ex). sequence_len x \<noteq> None"
  shows "transpose_dict_list ex =
     (case foldM_st update_length (map coerced (leaves ex)) None of
        Inl e \<Rightarrow> Inl e
      | Inr None \<Rightarrow> Inl (TypeError ''range(None)'')
      | Inr (Some n) \<Rightarrow>
          mapM (\<lambda>i. map_nested_dict_only (\<lambda>elem. py_getitem elem i) (map_leaves coerced ex))
            [0..<n])"
proof -
  let ?d = "map_leaves coerced ex"
  have st: "map_sum id snd (map_nested_dict_only_st update_length ?d None) =
        foldM_st update_length (map coerced (leaves ex)) None"
    by (simp add: map_nested_dict_only_st_state coerce_pass(2)[OF assms])
  show ?thesis
    unfolding transpose_dict_list_def coerce_pass(1)[OF assms] st[symmetric]
    by (cases "map_nested_dict_only_st update_length ?d None")
       (auto split: option.splits)
qed

lemma update_length_PList:
  "update_length (PList ys) s =
     (case s of None \<Rightarrow> Inr (PList ys, Some (length ys))
      | Some l \<Rightarrow> if l \<noteq> length ys then Inl (ElementLengthError l (length ys))
                  else Inr (PList ys, Some l))"
  by (simp add: update_length_def split: option.splits)

lemma foldM_st_same:
  "(\<And>x. x \<in> set xs \<Longrightarrow> \<exists>ys. x = PList ys \<and> length ys = n) \<Longrightarrow>
   foldM_st update_length xs (Some n) = Inr (Some n)"
proof (induction xs)
  case Nil
  then show ?case by simp
next
  case (Cons x xs)
  from Cons.prems[of x] obtain ys where "x = PList ys" "length ys = n" by auto
  moreover have "foldM_st update_length xs (Some n) = Inr (Some n)"
    by (rule Cons.IH) (rule Cons.prems, simp)
  ultimately show ?case by (simp add: update_length_PList)
qed

lemma foldM_st_mismatch:
  assumes "\<And>x. x \<in> set mid \<Longrightarrow> \<exists>ys. x = PList ys \<and> length ys = n"
    and "length ys = m" and "m \<noteq> n"
  shows "foldM_st update_length (mid @ PList ys # post) (Some n) = Inl (ElementLengthError n m)"
  using assms by (simp add: foldM_st_append foldM_st_same update_length_PList)

lemma coerced_len: "sequence_len x = Some n \<Longrightarrow> \<exists>ys. coerced x = PList ys \<and> length ys = n"
  by (auto simp: sequence_len_def coerced_items)

lemma getitem_pass:
  assumes "\<forall>x\<in>set (leaves ex). sequence_len x = Some n" and "i < n"
  shows "map_nested_dict_only (\<lambda>elem. py_getitem elem i) (map_leaves coerced ex) =
         Inr (map_leaves (nth_item i) ex)"
proof -
  have nd: "\<And>x. x \<in> set (leaves ex) \<Longrightarrow> \<not> is_dict (coerced x)"
  proof -
    fix x assume "x \<in> set (leaves ex)"
    with assms(1) have "sequence_len x \<noteq> None" by auto
    then show "\<not> is_dict (coerced x)" by (rule coerced_not_dict)
  qed
  have lv: "leaves (map_leaves coerced ex) = map coerced (leaves ex)"
    using assms(1) by (intro coerce_pass(2)) auto
  have "map_nested_dict_only (\<lambda>elem. py_getitem elem i) (map_leaves coerced ex) =
        Inr (map_leaves (\<lambda>y. case y of PList ys \<Rightarrow> ys ! i | _ \<Rightarrow> y) (map_leaves coerced ex))"
  proof (rule map_nested_dict_only_Inr)
    fix y assume "y \<in> set (leaves (map_leaves coerced ex))"
    with lv obtain x where "x \<in> set (leaves ex)" "y = coerced x" by auto
    with assms(1) coerced_len[of x n] obtain ys where "y = PList ys" "length ys = n" by auto
    with assms(2) show "py_getitem y i = Inr (case y of PList ys \<Rightarrow> ys ! i | _ \<Rightarrow> y)" by simp
  qed
  also have "map_leaves (\<lambda>y. case y of PList ys \<Rightarrow> ys ! i | _ \<Rightarrow> y) (map_leaves coerced ex) =
        map_leaves (\<lambda>x. case coerced x of PList ys \<Rightarrow> ys ! i | _ \<Rightarrow> coerced x) ex"
    by (rule map_leaves_comp) (rule nd)
  also have "\<dots> = map_leaves (nth_item i) ex"
  proof (rule map_leaves_cong)
    fix x assume "x \<in> set (leaves ex)"
    with assms(1) have "sequence_len x = Some n" by auto
    then obtain xs where "sequence_items x = Some xs" by (auto simp: sequence_len_def)
    then show "(case coerced x of PList ys \<Rightarrow> ys ! i | _ \<Rightarrow> coerced x) = nth_item i x"
      by (simp add: coerced_items nth_item_def)
  qed
  finally show ?thesis .
qed

lemma transpose_dict_list_ok:
  assumes "leaves ex \<noteq> []" and "\<forall>x\<in>set (leaves ex). sequence_len x = Some n"
  shows "transpose_dict_list ex = Inr (map (\<lambda>i. map_leaves (nth_item i) ex) [0..<n])"
proof -
  from assms(1) obtain x0 rest where lv: "leaves ex = x0 # rest" by (cases "leaves ex") auto
  from assms(2) have ok: "\<forall>x\<in>set (leaves ex). sequence_len x \<noteq> None" by auto
  from lv assms(2) coerced_len[of x0 n] obtain ys where x0: "coerced x0 = PList ys" "length ys = n"
    by auto
  have "foldM_st update_length (map coerced rest) (Some n) = Inr (Some n)"
  proof (rule foldM_st_same)
    fix y assume "y \<in> set (map coerced rest)"
    then obtain x where "x \<in> set rest" "y = coerced x" by auto
    with lv assms(2) coerced_len[of x n] show "\<exists>ys. y = PList ys \<and> length ys = n" by auto
  qed
  with x0 lv have f: "foldM_st update_length (map coerced (leaves ex)) None = Inr (Some n)"
    by (simp add: update_length_PList)
  have "mapM (\<lambda>i. map_nested_dict_only (\<lambda>elem. py_getitem elem i) (map_leaves coerced ex)) [0..<n]
        = Inr (map (\<lambda>i. map_leaves (nth_item i) ex) [0..<n])"
    by (rule mapM_Inr) (simp add: getitem_pass[OF assms(2)])
  with f show ?thesis
    by (simp add: transpose_dict_list_eq[OF ok])
qed

subsection \<open>Structures without leaves\<close>

text \<open>
  Claim C10. For every input structure without any leaf, for example an empty dict,
  \<^verbatim>\<open>encode_example\<close> raises the \<^verbatim>\<open>TypeError\<close> of \<^verbatim>\<open>range(None)\<close>, whatever the
  configured length and the inner feature are: no leaf sets the expected length, and the
  check of the static length and the branch of the empty sequence are not reached.
\<close>

theorem no_leaves_type_error:
  assumes "leaves example_dict = []"
  shows "encode_example c self example_dict = Inl (TypeError ''range(None)'')"
proof -
  have "transpose_dict_list example_dict = Inl (TypeError ''range(None)'')"
    using assms by (subst transpose_dict_list_eq) simp_all
  then show ?thesis by (simp add: encode_example_def)
qed

theorem no_leaves_type_error_witness:
  "leaves (PDict [(''frame'', PDict [])]) = [] \<and>
   encode_example no_coerce (init frames_feature (Some 3)) (PDict [(''frame'', PDict [])]) =
     Inl (TypeError ''range(None)'')"
  using no_leaves_type_error[of "PDict [(''frame'', PDict [])]" no_coerce "init frames_feature (Some 3)"]
  by simp

subsection \<open>Coercion of the leaves\<close>

lemma sequence_len_iff:
  "sequence_len elem \<noteq> None \<longleftrightarrow>
     is_list elem \<or> is_tuple elem \<or> (is_ndarray elem \<and> array_shape elem \<noteq> Some [])"
proof (cases elem)
  case (PArray dt sh items)
  then show ?thesis
    by (cases sh) (simp_all add: sequence_len_def sequence_items_def)
qed (simp_all add: sequence_len_def sequence_items_def)

lemma np_to_list_other:
  "\<not> is_list elem \<Longrightarrow> \<not> is_tuple elem \<Longrightarrow> \<not> is_ndarray elem \<Longrightarrow>
   np_to_list elem = Inl (InputTypeError (type_name elem))"
  by (cases elem) auto

lemma encode_example_transpose_error:
  "transpose_dict_list ex = Inl e \<Longrightarrow> encode_example c self ex = Inl e"
  by (simp add: encode_example_def)

lemma transpose_np_to_list_error:
  "map_nested_dict_only np_to_list ex = Inl e \<Longrightarrow> transpose_dict_list ex = Inl e"
  by (simp add: transpose_dict_list_def)

text \<open>
  Claim C6, amended. \<^verbatim>\<open>np_to_list\<close> returns a list unchanged, the elements of a tuple
  in order, and the items of a numpy array of at least one dimension in order. A leaf is
  coerced if and only if it is a list, a tuple or a numpy array of at least one dimension:
  a zero-dimensional array is an array, but numpy refuses to iterate over it and its
  \<^verbatim>\<open>TypeError\<close> is what the caller gets. A leaf of any other type is refused with the
  error that names its type, and \<^verbatim>\<open>encode_example\<close> fails with that error when the
  leaves visited before it were coerced.
\<close>

theorem leaf_coercion:
  "np_to_list (PList xs) = Inr (PList xs) \<and>
   np_to_list (PTuple xs) = Inr (PList xs) \<and>
   np_to_list (PArray dt (n # sh) items) = Inr (PList items) \<and>
   np_to_list (PArray dt [] items) = Inl (TypeError ''iteration over a 0-d array'') \<and>
   (sequence_len elem \<noteq> None \<longleftrightarrow>
      is_list elem \<or> is_tuple elem \<or> (is_ndarray elem \<and> array_shape elem \<noteq> Some [])) \<and>
   (\<not> is_list elem \<and> \<not> is_tuple elem \<and> \<not> is_ndarray elem \<longrightarrow>
      np_to_list elem = Inl (InputTypeError (type_name elem))) \<and>
   (leaves example_dict = pre @ elem # post \<and> (\<forall>y\<in>set pre. sequence_len y \<noteq> None) \<and>
    \<not> is_list elem \<and> \<not> is_tuple elem \<and> \<not> is_ndarray elem \<longrightarrow>
      encode_example c self example_dict = Inl (InputTypeError (type_name elem)))"
proof -
  have "encode_example c self example_dict = Inl (InputTypeError (type_name elem))"
    if lv: "leaves example_dict = pre @ elem # post"
      and pre: "\<forall>y\<in>set pre. sequence_len y \<noteq> None"
      and el: "\<not> is_list elem" "\<not> is_tuple elem" "\<not> is_ndarray elem"
  proof -
    have "map_nested_dict_only np_to_list example_dict = Inl (InputTypeError (type_name elem))"
    proof (rule map_nested_dict_only_first_error[OF lv])
      fix y assume "y \<in> set pre"
      with pre have "sequence_len y \<noteq> None" by auto
      then show "\<exists>z. np_to_list y = Inr z" by (auto simp: np_to_list_coerced)
    next
      show "np_to_list elem = Inl (InputTypeError (type_name elem))"
        using el by (rule np_to_list_other)
    qed
    then show ?thesis
      by (intro encode_example_transpose_error transpose_np_to_list_error)
  qed
  then show ?thesis
    using sequence_len_iff[of elem] np_to_list_other[of elem] by auto
qed

theorem leaf_coercion_witness:
  "leaves bad_leaf = [PList [PInt 1]] @ PInt 7 # [] \<and>
   sequence_len (PList [PInt 1]) = Some 1 \<and>
   \<not> is_list (PInt 7) \<and> \<not> is_tuple (PInt 7) \<and> \<not> is_ndarray (PInt 7) \<and>
   encode_example no_coerce (init frames_feature None) bad_leaf = Inl (InputTypeError ''int'')"
proof -
  have h: "leaves bad_leaf = [PList [PInt 1]] @ PInt 7 # [] \<and>
      (\<forall>y\<in>set [PList [PInt 1]]. sequence_len y \<noteq> None) \<and>
      \<not> is_list (PInt 7) \<and> \<not> is_tuple (PInt 7) \<and> \<not> is_ndarray (PInt 7)"
    by (simp add: bad_leaf_def sequence_len_def sequence_items_def)
  with leaf_coercion[where elem = "PInt 7" and example_dict = bad_leaf
      and pre = "[PList [PInt 1]]" and post = "[]" and c = no_coerce
      and self = "init frames_feature None"]
  show ?thesis by (simp add: sequence_len_def sequence_items_def)
qed

text \<open>
  The claim as it was stated fails at a zero-dimensional array: it is a numpy array, it is
  not coerced, and the error is not the one that names the type.
\<close>

theorem zero_dim_array_refused:
  "is_ndarray zero_dim_array \<and>
   np_to_list zero_dim_array = Inl (TypeError ''iteration over a 0-d array'') \<and>
   encode_example no_coerce (init frames_feature None) (PDict [(''action'', zero_dim_array)]) =
     Inl (TypeError ''iteration over a 0-d array'')"
  by (simp add: zero_dim_array_def encode_example_def transpose_dict_list_def)

subsection \<open>The common length\<close>

lemma encode_example_static_mismatch:
  "transpose_dict_list ex = Inr recs \<Longrightarrow> self_length self = Some l \<Longrightarrow> length recs \<noteq> l \<Longrightarrow>
   encode_example c self ex = Inl (SequenceLengthError (length recs) l)"
  by (simp add: encode_example_def)

text \<open>
  Claim C3, amended. Let every leaf of the input be a sequence, that is, accepted by
  \<^verbatim>\<open>np_to_list\<close> (all leaves are coerced before any length is compared), the first of
  them of length \<open>n\<close>. Then \<open>n\<close> is the expected length:
  at the first later leaf whose length \<open>m\<close> differs, \<^verbatim>\<open>encode_example\<close> fails with the
  error that reports \<open>n\<close> and \<open>m\<close>; when all leaves have length \<open>n\<close> the transposition
  gives \<open>n\<close> records, and with a configured length \<open>l\<close> other than \<open>n\<close>
  \<^verbatim>\<open>encode_example\<close> fails with the error that reports \<open>n\<close> and \<open>l\<close>. In both cases the
  result is the error, for every inner feature: nothing has been encoded.
\<close>

theorem length_enforcement:
  assumes "leaves example_dict = x0 # rest"
    and "sequence_len x0 = Some n"
    and "\<forall>y\<in>set rest. sequence_len y \<noteq> None"
  shows "(\<forall>mid y post m. rest = mid @ y # post \<and> (\<forall>z\<in>set mid. sequence_len z = Some n) \<and>
            sequence_len y = Some m \<and> m \<noteq> n \<longrightarrow>
            encode_example c self example_dict = Inl (ElementLengthError n m)) \<and>
         ((\<forall>z\<in>set rest. sequence_len z = Some n) \<longrightarrow>
            (\<exists>recs. transpose_dict_list example_dict = Inr recs \<and> length recs = n) \<and>
            (\<forall>l. self_length self = Some l \<and> l \<noteq> n \<longrightarrow>
               encode_example c self example_dict = Inl (SequenceLengthError n l)))"
proof (intro conjI allI impI)
  fix mid y post m
  assume a: "rest = mid @ y # post \<and> (\<forall>z\<in>set mid. sequence_len z = Some n) \<and>
            sequence_len y = Some m \<and> m \<noteq> n"
  from assms have ok: "\<forall>x\<in>set (leaves example_dict). sequence_len x \<noteq> None" by auto
  from assms(2) coerced_len obtain xs where x0: "coerced x0 = PList xs" "length xs = n" by blast
  from a coerced_len obtain ys where y: "coerced y = PList ys" "length ys = m" by blast
  have "foldM_st update_length (map coerced mid @ PList ys # map coerced post) (Some n) =
        Inl (ElementLengthError n m)"
  proof (rule foldM_st_mismatch)
    fix x assume "x \<in> set (map coerced mid)"
    then obtain z where "z \<in> set mid" "x = coerced z" by auto
    with a coerced_len[of z n] show "\<exists>ys. x = PList ys \<and> length ys = n" by auto
  qed (use y a in auto)
  then have "foldM_st update_length (map coerced (leaves example_dict)) None =
        Inl (ElementLengthError n m)"
    using assms(1) a x0 y by (simp add: update_length_PList)
  then have "transpose_dict_list example_dict = Inl (ElementLengthError n m)"
    by (simp add: transpose_dict_list_eq[OF ok])
  then show "encode_example c self example_dict = Inl (ElementLengthError n m)"
    by (rule encode_example_transpose_error)
next
  assume a: "\<forall>z\<in>set rest. sequence_len z = Some n"
  have t: "transpose_dict_list example_dict = Inr (map (\<lambda>i. map_leaves (nth_item i) example_dict) [0..<n])"
    by (rule transpose_dict_list_ok) (use assms a in auto)
  then show "\<exists>recs. transpose_dict_list example_dict = Inr recs \<and> length recs = n"
    by simp
  fix l assume "self_length self = Some l \<and> l \<noteq> n"
  with encode_example_static_mismatch[OF t, of self l c]
  show "encode_example c self example_dict = Inl (SequenceLengthError n l)" by auto
qed

theorem length_enforcement_witness:
  "leaves ragged_lists = PList [PInt 1, PInt 2, PInt 3] # [PTuple [PInt 1, PInt 2, PInt 3, PInt 4, PInt 5]] \<and>
   sequence_len (PList [PInt 1, PInt 2, PInt 3]) = Some 3 \<and>
   sequence_len (PTuple [PInt 1, PInt 2, PInt 3, PInt 4, PInt 5]) = Some 5 \<and>
   encode_example no_coerce (init frames_feature None) ragged_lists = Inl (ElementLengthError 3 5) \<and>
   leaves four_steps = [PList [PInt 1, PInt 2, PInt 3, PInt 4]] \<and>
   sequence_len (PList [PInt 1, PInt 2, PInt 3, PInt 4]) = Some 4 \<and>
   self_length (init frames_feature (Some 5)) = Some 5 \<and>
   encode_example no_coerce (init frames_feature (Some 5)) four_steps = Inl (SequenceLengthError 4 5)"
proof -
  have a: "leaves ragged_lists =
      PList [PInt 1, PInt 2, PInt 3] # [PTuple [PInt 1, PInt 2, PInt 3, PInt 4, PInt 5]]"
    by (simp add: ragged_lists_def)
  have b: "sequence_len (PList [PInt 1, PInt 2, PInt 3]) = Some 3"
    by (simp add: sequence_len_def sequence_items_def)
  have c: "sequence_len (PTuple [PInt 1, PInt 2, PInt 3, PInt 4, PInt 5]) = Some 5"
    by (simp add: sequence_len_def sequence_items_def)
  have d: "leaves four_steps = PList [PInt 1, PInt 2, PInt 3, PInt 4] # []"
    by (simp add: four_steps_def)
  have e: "sequence_len (PList [PInt 1, PInt 2, PInt 3, PInt 4]) = Some 4"
    by (simp add: sequence_len_def sequence_items_def)
  have f: "self_length (init frames_feature (Some 5)) = Some 5"
    by (simp add: init_def)
  have "encode_example no_coerce (init frames_feature None) ragged_lists = Inl (ElementLengthError 3 5)"
    using length_enforcement[OF a b, of no_coerce "init frames_feature None"] c
    by (auto simp: Cons_eq_append_conv)
  moreover have "encode_example no_coerce (init frames_feature (Some 5)) four_steps =
      Inl (SequenceLengthError 4 5)"
    using length_enforcement[OF d e, of no_coerce "init frames_feature (Some 5)"] f
    by simp
  ultimately show ?thesis using a b c d e f by simp
qed

text \<open>
  The claim as it was stated, for every input, fails when a leaf is not a sequence: the
  first two leaves have the lengths 3 and 1, and \<^verbatim>\<open>encode_example\<close> fails with the error
  that names the type of the third leaf, which is raised before any length is compared.
\<close>

theorem length_mismatch_after_type_error_counterexample:
  "leaves mixed_leaves = [PList [PInt 1, PInt 2, PInt 3], PList [PInt 1], PInt 7] \<and>
   sequence_len (PList [PInt 1, PInt 2, PInt 3]) = Some 3 \<and>
   sequence_len (PList [PInt 1]) = Some 1 \<and>
   sequence_len (PInt 7) = None \<and>
   encode_example no_coerce (init frames_feature None) mixed_leaves =
     Inl (InputTypeError ''int'')"
  by (simp add: mixed_leaves_def sequence_len_def sequence_items_def encode_example_def
      transpose_dict_list_def)

subsection \<open>The empty sequence\<close>

lemma value_at_nested_to_pyval:
  "leaf_at t p = Some v \<Longrightarrow> value_at (nested_to_pyval t) p = Some v"
proof (induction p arbitrary: t)
  case Nil
  then show ?case by (cases t) auto
next
  case (Cons k p)
  show ?case
  proof (cases t)
    case (Leaf x)
    with Cons.prems show ?thesis by simp
  next
    case (Struct kvs)
    have "map_of (map (\<lambda>(k, t). (k, nested_to_pyval t)) kvs) k =
          map_option nested_to_pyval (map_of kvs k)"
      by (simp add: map_of_map)
    with Struct Cons show ?thesis
      by (auto split: option.splits)
  qed
qed

lemma build_empty_np_zero:
  assumes "shape ti = d # sh" and "d = None \<or> d = Some 0"
  shows "build_empty_np ti =
     PArray (as_numpy_dtype (dtype ti)) (0 # map (\<lambda>s. case s of None \<Rightarrow> 0 | Some n \<Rightarrow> n) sh) []"
proof -
  have "map (\<lambda>s. case s of None \<Rightarrow> 0 | Some n \<Rightarrow> if n \<noteq> 0 then n else 0) sh =
        map (\<lambda>s. case s of None \<Rightarrow> 0 | Some n \<Rightarrow> n) sh"
    by (rule map_cong) (auto split: option.splits)
  with assms show ?thesis
    by (auto simp: build_empty_np_def)
qed

text \<open>
  Claim C4, amended. For every input whose leaves are all sequences of length zero, and
  a configured length that is unset or zero, \<^verbatim>\<open>encode_example\<close> returns the structure
  of the serialized description in which every leaf is an array without elements: its
  shape is the declared shape of the leaf with every unknown dimension replaced by 0 (so
  the first dimension is 0), and its element type is the numpy type of the declared
  element type. The result does not depend on the encoder of the inner feature, which is
  not called.
\<close>

theorem empty_sequence_arrays:
  assumes "leaves example_dict \<noteq> []"
    and "\<forall>x\<in>set (leaves example_dict). sequence_len x = Some 0"
    and "self_length self = None \<or> self_length self = Some 0"
  shows "encode_example c self example_dict =
           Inr (nested_to_pyval (map_nested build_empty_np (get_serialized_info self))) \<and>
         (\<forall>p ti. leaf_at (get_serialized_info self) p = Some ti \<longrightarrow>
            (\<exists>sh. map (\<lambda>s. case s of None \<Rightarrow> 0 | Some n \<Rightarrow> n) (shape ti) = 0 # sh \<and>
               value_at (nested_to_pyval (map_nested build_empty_np (get_serialized_info self))) p =
                 Some (PArray (as_numpy_dtype (dtype ti)) (0 # sh) []))) \<and>
         (\<forall>enc. encode_example c
                   (self\<lparr>self_feature := (self_feature self)\<lparr>fc_encode_example := enc\<rparr>\<rparr>)
                   example_dict =
                 encode_example c self example_dict)"
proof (intro conjI allI impI)
  have t: "transpose_dict_list example_dict = Inr []"
    using transpose_dict_list_ok[OF assms(1,2)] by simp
  show e: "encode_example c self example_dict =
           Inr (nested_to_pyval (map_nested build_empty_np (get_serialized_info self)))"
    using assms(3) t by (auto simp: encode_example_def)
  fix enc
  let ?self' = "self\<lparr>self_feature := (self_feature self)\<lparr>fc_encode_example := enc\<rparr>\<rparr>"
  have "add_length_dim ?self' = add_length_dim self"
    by (rule ext) (simp add: add_length_dim_def)
  then have "get_serialized_info ?self' = get_serialized_info self"
    by (simp add: get_serialized_info_def)
  then show "encode_example c ?self' example_dict = encode_example c self example_dict"
    using assms(3) t e by (auto simp: encode_example_def)
next
  fix p ti
  assume l: "leaf_at (get_serialized_info self) p = Some ti"
  then obtain ti0 where ti: "ti = add_length_dim self ti0"
    by (auto simp: get_serialized_info_def leaf_at_map_nested)
  then have sh: "shape ti = self_length self # shape ti0"
    by (simp add: add_length_dim_def)
  have b: "build_empty_np ti =
     PArray (as_numpy_dtype (dtype ti))
       (0 # map (\<lambda>s. case s of None \<Rightarrow> 0 | Some n \<Rightarrow> n) (shape ti0)) []"
    using sh assms(3) by (rule build_empty_np_zero)
  have "leaf_at (map_nested build_empty_np (get_serialized_info self)) p = Some (build_empty_np ti)"
    using l by (simp add: leaf_at_map_nested)
  then have "value_at (nested_to_pyval (map_nested build_empty_np (get_serialized_info self))) p =
        Some (build_empty_np ti)"
    by (rule value_at_nested_to_pyval)
  with b sh assms(3)
  show "\<exists>sh. map (\<lambda>s. case s of None \<Rightarrow> 0 | Some n \<Rightarrow> n) (shape ti) = 0 # sh \<and>
          value_at (nested_to_pyval (map_nested build_empty_np (get_serialized_info self))) p =
            Some (PArray (as_numpy_dtype (dtype ti)) (0 # sh) [])"
    by auto
qed

theorem empty_sequence_arrays_witness:
  "leaves (PList []) = [PList []] \<and>
   sequence_len (PList []) = Some 0 \<and>
   self_length (init images_feature None) = None \<and>
   leaf_at (get_serialized_info (init images_feature None)) [] =
     Some \<lparr>shape = [None, Some 3, None], dtype = DType ''float32''\<rparr> \<and>
   encode_example no_coerce (init images_feature None) (PList []) =
     Inr (PArray (NpDType ''float32'') [0, 3, 0] [])"
proof -
  have a: "leaves (PList []) \<noteq> []" by simp
  have b: "\<forall>x\<in>set (leaves (PList [])). sequence_len x = Some 0"
    by (simp add: sequence_len_def sequence_items_def)
  have c: "self_length (init images_feature None) = None \<or>
           self_length (init images_feature None) = Some 0"
    by (simp add: init_def)
  have d: "leaf_at (get_serialized_info (init images_feature None)) [] =
     Some \<lparr>shape = [None, Some 3, None], dtype = DType ''float32''\<rparr>"
    by (simp add: get_serialized_info_def init_def images_feature_def add_length_dim_def)
  note th = empty_sequence_arrays[OF a b c, of no_coerce]
  let ?r = "nested_to_pyval (map_nested build_empty_np (get_serialized_info (init images_feature None)))"
  from th have e: "encode_example no_coerce (init images_feature None) (PList []) = Inr ?r"
    by blast
  from th d have "\<exists>sh. map (\<lambda>s. case s of None \<Rightarrow> 0 | Some n \<Rightarrow> n)
        (shape \<lparr>shape = [None, Some 3, None], dtype = DType ''float32''\<rparr>) = 0 # sh \<and>
      value_at ?r [] =
        Some (PArray (as_numpy_dtype (dtype \<lparr>shape = [None, Some 3, None], dtype = DType ''float32''\<rparr>))
               (0 # sh) [])"
    by blast
  then have "?r = PArray (NpDType ''float32'') [0, 3, 0] []"
    by auto
  with e have "encode_example no_coerce (init images_feature None) (PList []) =
     Inr (PArray (NpDType ''float32'') [0, 3, 0] [])"
    by simp
  with d show ?thesis
    by (simp add: sequence_len_def sequence_items_def init_def)
qed

text \<open>
  The claim as it was stated fails when a length other than zero is configured: the
  realized length is zero, and the check of the configured length raises first.
\<close>

theorem empty_sequence_static_length_counterexample:
  "leaves empty_steps = [PList [], PArray (NpDType ''int64'') [0] []] \<and>
   sequence_len (PList []) = Some 0 \<and>
   sequence_len (PArray (NpDType ''int64'') [0] []) = Some 0 \<and>
   transpose_dict_list empty_steps = Inr [] \<and>
   encode_example no_coerce (init frames_feature (Some 5)) empty_steps =
     Inl (SequenceLengthError 0 5)"
  by (simp add: empty_steps_def sequence_len_def sequence_items_def encode_example_def
      transpose_dict_list_def update_length_def init_def)

subsection \<open>Metadata\<close>

text \<open>
  Claim C8. \<^verbatim>\<open>save_metadata\<close> and \<^verbatim>\<open>load_metadata\<close> of a \<^verbatim>\<open>Sequence\<close> call the method
  of the same name of the inner feature with the arguments they were given, unchanged;
  the world after the call is exactly the one the inner feature left, so the
  \<^verbatim>\<open>Sequence\<close> writes nothing of its own; an exception of the inner feature is passed
  on as it is, and otherwise the method returns \<^verbatim>\<open>None\<close>, whatever the inner feature
  returned.
\<close>

theorem metadata_delegation:
  "save_metadata self args w =
     (case fc_save_metadata (self_feature self) args w of
        (r, w') \<Rightarrow> (map_sum id (\<lambda>_. PNone) r, w')) \<and>
   load_metadata self args w =
     (case fc_load_metadata (self_feature self) args w of
        (r, w') \<Rightarrow> (map_sum id (\<lambda>_. PNone) r, w')) \<and>
   snd (save_metadata self args w) = snd (fc_save_metadata (self_feature self) args w) \<and>
   snd (load_metadata self args w) = snd (fc_load_metadata (self_feature self) args w) \<and>
   err_of (fst (save_metadata self args w)) =
     err_of (fst (fc_save_metadata (self_feature self) args w)) \<and>
   err_of (fst (load_metadata self args w)) =
     err_of (fst (fc_load_metadata (self_feature self) args w))"
  by (auto simp: save_metadata_def load_metadata_def split: prod.splits sum.splits)

theorem metadata_delegation_witness:
  "save_metadata (init recording_feature (Some 4)) metadata_args [] = (Inr PNone, [metadata_args]) \<and>
   load_metadata (init recording_feature (Some 4)) metadata_args [] =
     (Inl (FeatureError ''no metadata file''), [metadata_args])"
  using metadata_delegation[of "init recording_feature (Some 4)" metadata_args "[]"]
  by (simp add: init_def recording_feature_def)

subsection \<open>The attributes of the object\<close>

lemma call_inner_objects: "call_inner m st = (r, st1) \<Longrightarrow> objects st1 = objects st"
  by (auto simp: call_inner_def split: prod.splits)

lemma call_inner_world: "call_inner m st = (r, st1) \<Longrightarrow> (r, world st1) = m (world st)"
  by (auto simp: call_inner_def split: prod.splits)

lemma mapM_io_objects:
  assumes "\<And>x u r u1. f x u = (r, u1) \<Longrightarrow> objects u1 = objects u"
  shows "mapM_io f xs s = (r, s1) \<Longrightarrow> objects s1 = objects s"
proof (induction xs arbitrary: s r s1)
  case Nil
  then show ?case by simp
next
  case (Cons x xs)
  obtain y u where fx: "f x s = (y, u)" by (cases "f x s")
  have ou: "objects u = objects s" by (rule assms[OF fx])
  show ?case
  proof (cases y)
    case (Inl e)
    with Cons.prems fx have "s1 = u" by simp
    with ou show ?thesis by simp
  next
    case (Inr v)
    obtain ys u2 where rest: "mapM_io f xs u = (ys, u2)" by (cases "mapM_io f xs u")
    have "objects u2 = objects u" by (rule Cons.IH[OF rest])
    moreover have "s1 = u2" using Cons.prems fx Inr rest by (auto split: sum.splits)
    ultimately show ?thesis using ou by simp
  qed
qed

lemma obj_get_tensor_info_objects:
  "obj_get_tensor_info classes self st = (r, st1) \<Longrightarrow> objects st1 = objects st"
  by (auto simp: obj_get_tensor_info_def split: sum.splits prod.splits if_splits
      dest: call_inner_objects)

lemma obj_get_serialized_info_objects:
  "obj_get_serialized_info classes self st = (r, st1) \<Longrightarrow> objects st1 = objects st"
  by (auto simp: obj_get_serialized_info_def split: sum.splits prod.splits if_splits
      dest: call_inner_objects)

lemma encode_step_objects:
  "(case get_feature_attr u self of
      Inl e \<Rightarrow> (Inl e, u)
    | Inr b \<Rightarrow> call_inner (in_encode_example (classes b) x) u) = (r, u1) \<Longrightarrow>
   objects u1 = objects u"
  by (auto split: sum.splits dest: call_inner_objects)

lemma obj_encode_example_objects:
  assumes "obj_encode_example c classes self x st = (r, st1)"
  shows "objects st1 = objects st"
proof (cases "transpose_dict_list x")
  case (Inl e)
  with assms show ?thesis by (simp add: obj_encode_example_def)
next
  case (Inr sequence_elements)
  note tr = Inr
  show ?thesis
  proof (cases "get_length_attr st self")
    case (Inl e)
    with assms tr show ?thesis by (simp add: obj_encode_example_def)
  next
    case (Inr length_attr)
    note la = Inr
    show ?thesis
    proof (cases "length_attr \<noteq> None \<and> length sequence_elements \<noteq> the length_attr")
      case True
      with assms tr la show ?thesis by (auto simp: obj_encode_example_def)
    next
      case False
      then have chk: "(case length_attr of
                        None \<Rightarrow> None
                      | Some l \<Rightarrow>
                          if length sequence_elements \<noteq> l
                          then Some (SequenceLengthError (length sequence_elements) l)
                          else None) = None"
        by (auto split: option.splits)
      show ?thesis
      proof (cases "sequence_elements = []")
        case True
        obtain i u where gi: "obj_get_serialized_info classes self st = (i, u)"
          by (cases "obj_get_serialized_info classes self st")
        have "objects u = objects st" by (rule obj_get_serialized_info_objects[OF gi])
        moreover have "st1 = u"
          using assms tr la chk True gi by (auto simp: obj_encode_example_def split: sum.splits)
        ultimately show ?thesis by simp
      next
        case False
        let ?f = "\<lambda>sequence_elem u.
                    case get_feature_attr u self of
                      Inl e \<Rightarrow> (Inl e, u)
                    | Inr b \<Rightarrow> call_inner (in_encode_example (classes b) sequence_elem) u"
        obtain ys u where mp: "mapM_io ?f sequence_elements st = (ys, u)"
          by (cases "mapM_io ?f sequence_elements st")
        have "objects u = objects st"
          by (rule mapM_io_objects[of ?f, OF encode_step_objects mp])
        moreover have "st1 = u"
          using assms tr la chk False mp by (auto simp: obj_encode_example_def split: sum.splits)
        ultimately show ?thesis by simp
      qed
    qed
  qed
qed

lemma obj_decode_example_objects:
  assumes "obj_decode_example tfm classes self x st = (r, st1)"
  shows "objects st1 = objects st"
proof (cases "get_feature_attr st self")
  case (Inl e)
  with assms show ?thesis by (simp add: obj_decode_example_def)
next
  case (Inr b)
  obtain i u where gi: "obj_get_tensor_info classes self st = (i, u)"
    by (cases "obj_get_tensor_info classes self st")
  have ou: "objects u = objects st" by (rule obj_get_tensor_info_objects[OF gi])
  show ?thesis
  proof (cases i)
    case (Inl e)
    with assms Inr gi have "st1 = u" by (simp add: obj_decode_example_def)
    with ou show ?thesis by simp
  next
    case (Inr info)
    with assms \<open>get_feature_attr st self = Inr b\<close> gi
    have "call_inner (tfm (in_decode_example (classes b)) x (map_nested dtype info)) u = (r, st1)"
      by (simp add: obj_decode_example_def)
    then have "objects st1 = objects u" by (rule call_inner_objects)
    with ou show ?thesis by simp
  qed
qed

lemma obj_save_metadata_objects:
  "obj_save_metadata classes self args st = (r, st1) \<Longrightarrow> objects st1 = objects st"
  by (auto simp: obj_save_metadata_def split: sum.splits prod.splits dest: call_inner_objects)

lemma obj_load_metadata_objects:
  "obj_load_metadata classes self args st = (r, st1) \<Longrightarrow> objects st1 = objects st"
  by (auto simp: obj_load_metadata_def split: sum.splits prod.splits dest: call_inner_objects)

lemma call_method_objects: "objects (call_method c tfm classes self m st) = objects st"
proof (cases m)
  case GetTensorInfo
  then show ?thesis
    using obj_get_tensor_info_objects[OF surjective_pairing, of classes self st] by simp
next
  case GetSerializedInfo
  then show ?thesis
    using obj_get_serialized_info_objects[OF surjective_pairing, of classes self st] by simp
next
  case (EncodeExample x)
  then show ?thesis
    using obj_encode_example_objects[OF surjective_pairing, of c classes self x st] by simp
next
  case (DecodeExample x)
  then show ?thesis
    using obj_decode_example_objects[OF surjective_pairing, of tfm classes self x st] by simp
next
  case (SaveMetadata args)
  then show ?thesis
    using obj_save_metadata_objects[OF surjective_pairing, of classes self args st] by simp
next
  case (LoadMetadata args)
  then show ?thesis
    using obj_load_metadata_objects[OF surjective_pairing, of classes self args st] by simp
qed

lemma run_calls_objects: "objects (run_calls c tfm classes self ms st) = objects st"
  by (induction ms arbitrary: st) (simp_all add: call_method_objects)

text \<open>
  With an inner feature that keeps no state, the methods on the store return what the
  methods of the class \<^verbatim>\<open>Sequence\<close> above return on the attributes that the store
  holds, and leave the state as it is; \<^verbatim>\<open>decode_example\<close> for a \<^verbatim>\<open>tf.map_fn\<close> that has
  no effect of its own; the metadata methods leave the world that the inner feature
  leaves.
\<close>

lemma mapM_io_same_state:
  assumes "\<And>x. f x s = (g x, s)"
  shows "mapM_io f xs s = (mapM g xs, s)"
  by (induction xs) (auto simp: assms split: sum.splits)

lemma obj_get_tensor_info_stateless:
  assumes "objects st self = Some \<lparr>attr_feature = b, attr_length = l\<rparr>"
    and "classes b = stateless fc"
  shows "obj_get_tensor_info classes self st = (Inr (get_tensor_info (init fc l)), st)"
proof -
  have "add_length_dim_copy (init fc l) = (\<lambda>ti. ti\<lparr>shape := l # shape ti\<rparr>)"
    by (rule ext) (simp add: add_length_dim_copy_def init_def)
  with assms show ?thesis
    by (simp add: obj_get_tensor_info_def get_feature_attr_def get_length_attr_def
        call_inner_def stateless_def get_tensor_info_def) (simp add: init_def)
qed

lemma obj_get_serialized_info_stateless:
  assumes "objects st self = Some \<lparr>attr_feature = b, attr_length = l\<rparr>"
    and "classes b = stateless fc"
  shows "obj_get_serialized_info classes self st = (Inr (get_serialized_info (init fc l)), st)"
proof -
  have "add_length_dim (init fc l) = (\<lambda>ti. \<lparr>shape = l # shape ti, dtype = dtype ti\<rparr>)"
    by (rule ext) (simp add: add_length_dim_def init_def)
  with assms show ?thesis
    by (simp add: obj_get_serialized_info_def get_feature_attr_def get_length_attr_def
        call_inner_def stateless_def get_serialized_info_def) (simp add: init_def)
qed

lemma obj_encode_example_stateless:
  assumes "objects st self = Some \<lparr>attr_feature = b, attr_length = l\<rparr>"
    and "classes b = stateless fc"
  shows "obj_encode_example c classes self example_dict st =
           (encode_example c (init fc l) example_dict, st)"
proof -
  let ?f = "\<lambda>sequence_elem u.
              case get_feature_attr u self of
                Inl e \<Rightarrow> (Inl e, u)
              | Inr b \<Rightarrow> call_inner (in_encode_example (classes b) sequence_elem) u"
  have "?f x st = (fc_encode_example fc x, st)" for x
    using assms by (simp add: get_feature_attr_def call_inner_def stateless_def)
  then have steps: "mapM_io ?f xs st = (mapM (fc_encode_example fc) xs, st)" for xs
    by (rule mapM_io_same_state)
  have la: "get_length_attr st self = Inr l"
    using assms by (simp add: get_length_attr_def)
  have si: "obj_get_serialized_info classes self st = (Inr (get_serialized_info (init fc l)), st)"
    using assms by (rule obj_get_serialized_info_stateless)
  show ?thesis
    unfolding obj_encode_example_def encode_example_def steps la si
    by (simp add: init_def feature_def split: sum.splits option.splits)
qed

lemma obj_decode_example_stateless:
  assumes "objects st self = Some \<lparr>attr_feature = b, attr_length = l\<rparr>"
    and "classes b = stateless fc"
    and "\<And>fn elems dtypes w. tfm (\<lambda>x u. (fn x, u)) elems dtypes w = (tf_map_fn fn elems dtypes, w)"
  shows "obj_decode_example tfm classes self tfexample_dict st =
           (decode_example tf_map_fn (init fc l) tfexample_dict, st)"
proof -
  have ti: "obj_get_tensor_info classes self st = (Inr (get_tensor_info (init fc l)), st)"
    using assms(1,2) by (rule obj_get_tensor_info_stateless)
  have fa: "get_feature_attr st self = Inr b"
    using assms(1) by (simp add: get_feature_attr_def)
  have dec: "in_decode_example (classes b) = (\<lambda>x u. (fc_decode_example fc x, u))"
    using assms(2) by (simp add: stateless_def)
  have "tfm (in_decode_example (classes b)) elems dtypes w =
          (tf_map_fn (fc_decode_example fc) elems dtypes, w)" for elems dtypes w
    unfolding dec by (rule assms(3))
  then show ?thesis
    unfolding obj_decode_example_def decode_example_def ti fa
    by (simp add: call_inner_def init_def feature_def)
qed

lemma obj_save_metadata_stateless:
  assumes "objects st self = Some \<lparr>attr_feature = b, attr_length = l\<rparr>"
    and "classes b = stateless fc"
  shows "obj_save_metadata classes self args st =
           (case save_metadata (init fc l) args (world st) of (r, w') \<Rightarrow> (r, st\<lparr>world := w'\<rparr>))"
  using assms
  by (simp add: obj_save_metadata_def get_feature_attr_def call_inner_def stateless_def
      save_metadata_def init_def split: prod.splits sum.splits)

lemma obj_load_metadata_stateless:
  assumes "objects st self = Some \<lparr>attr_feature = b, attr_length = l\<rparr>"
    and "classes b = stateless fc"
  shows "obj_load_metadata classes self args st =
           (case load_metadata (init fc l) args (world st) of (r, w') \<Rightarrow> (r, st\<lparr>world := w'\<rparr>))"
  using assms
  by (simp add: obj_load_metadata_def get_feature_attr_def call_inner_def stateless_def
      load_metadata_def init_def split: prod.splits sum.splits)

text \<open>
  Claim C7. Once a \<^verbatim>\<open>Sequence\<close> is constructed, each of \<^verbatim>\<open>get_tensor_info\<close>,
  \<^verbatim>\<open>get_serialized_info\<close>, \<^verbatim>\<open>encode_example\<close>, \<^verbatim>\<open>decode_example\<close>,
  \<^verbatim>\<open>save_metadata\<close> and \<^verbatim>\<open>load_metadata\<close> leaves the attributes of every
  \<^verbatim>\<open>Sequence\<close> object as they were, whether it returns or raises and whatever the inner
  feature does to the world; so after the constructor and any list of such calls
  \<^verbatim>\<open>_feature\<close> is still the reference and \<^verbatim>\<open>_length\<close> the length that the constructor
  was given.
\<close>

theorem node_immutable:
  "objects (snd (obj_get_tensor_info classes self st)) = objects st \<and>
   objects (snd (obj_get_serialized_info classes self st)) = objects st \<and>
   objects (snd (obj_encode_example c classes self example_dict st)) = objects st \<and>
   objects (snd (obj_decode_example tfm classes self tfexample_dict st)) = objects st \<and>
   objects (snd (obj_save_metadata classes self args st)) = objects st \<and>
   objects (snd (obj_load_metadata classes self args st)) = objects st \<and>
   objects (run_calls c tfm classes self ms (obj_init self feature_arg length_arg st0)) self =
     Some \<lparr>attr_feature = feature_arg, attr_length = length_arg\<rparr> \<and>
   get_feature_attr (run_calls c tfm classes self ms (obj_init self feature_arg length_arg st0)) self =
     Inr feature_arg \<and>
   get_length_attr (run_calls c tfm classes self ms (obj_init self feature_arg length_arg st0)) self =
     Inr length_arg"
proof -
  have a: "objects (snd (obj_get_tensor_info classes self st)) = objects st"
    by (rule obj_get_tensor_info_objects[OF surjective_pairing])
  have b: "objects (snd (obj_get_serialized_info classes self st)) = objects st"
    by (rule obj_get_serialized_info_objects[OF surjective_pairing])
  have c: "objects (snd (obj_encode_example c classes self example_dict st)) = objects st"
    by (rule obj_encode_example_objects[OF surjective_pairing])
  have d: "objects (snd (obj_decode_example tfm classes self tfexample_dict st)) = objects st"
    by (rule obj_decode_example_objects[OF surjective_pairing])
  have e: "objects (snd (obj_save_metadata classes self args st)) = objects st"
    by (rule obj_save_metadata_objects[OF surjective_pairing])
  have f: "objects (snd (obj_load_metadata classes self args st)) = objects st"
    by (rule obj_load_metadata_objects[OF surjective_pairing])
  have g: "objects (run_calls c tfm classes self ms (obj_init self feature_arg length_arg st0)) self =
     Some \<lparr>attr_feature = feature_arg, attr_length = length_arg\<rparr>"
    by (simp add: run_calls_objects obj_init_def set_attrs_def)
  from a b c d e f g show ?thesis
    by (simp add: get_feature_attr_def get_length_attr_def)
qed

theorem node_immutable_witness:
  "objects
     (run_calls no_coerce no_map_fn (\<lambda>a. label_feature) 0
        [LoadMetadata metadata_args, EncodeExample four_steps, DecodeExample vector_a,
         SaveMetadata metadata_args, GetTensorInfo, GetSerializedInfo]
        (obj_init 0 1 (Some 4) fresh_program)) 0 =
     Some \<lparr>attr_feature = 1, attr_length = Some 4\<rparr> \<and>
   fst (obj_get_tensor_info (\<lambda>a. label_feature) 0 (obj_init 0 1 (Some 4) fresh_program)) =
     Inr (Leaf \<lparr>shape = [Some 4, Some 0], dtype = DType ''int64''\<rparr>) \<and>
   world (snd (obj_load_metadata (\<lambda>a. label_feature) 0 metadata_args
            (obj_init 0 1 (Some 4) fresh_program))) = 10 \<and>
   fst (obj_get_tensor_info (\<lambda>a. label_feature) 0
          (snd (obj_load_metadata (\<lambda>a. label_feature) 0 metadata_args
             (obj_init 0 1 (Some 4) fresh_program)))) =
     Inr (Leaf \<lparr>shape = [Some 4, Some 10], dtype = DType ''int64''\<rparr>) \<and>
   objects (snd (obj_load_metadata (\<lambda>a. label_feature) 0 metadata_args
              (obj_init 0 1 (Some 4) fresh_program))) =
     objects (obj_init 0 1 (Some 4) fresh_program)"
  using node_immutable[of "\<lambda>a. label_feature" 0 "obj_init 0 1 (Some 4) fresh_program"
      no_coerce four_steps no_map_fn vector_a metadata_args
      "[LoadMetadata metadata_args, EncodeExample four_steps, DecodeExample vector_a,
        SaveMetadata metadata_args, GetTensorInfo, GetSerializedInfo]" 1 "Some 4" fresh_program]
  by (simp add: obj_get_tensor_info_def obj_load_metadata_def get_feature_attr_def
      get_length_attr_def call_inner_def label_feature_def obj_init_def set_attrs_def
      fresh_program_def)

subsection \<open>Stacking\<close>

text \<open>
  Claim C9. Whether \<^verbatim>\<open>stack_arrays\<close> stacks the values of the steps or returns them as a
  list depends on the first value only. When the first value is not a numpy array the
  result is the list of the values as they are, whatever the later values are. When it
  is one, all values are given to \<^verbatim>\<open>np.stack\<close>, and the result is the array that
  \<^verbatim>\<open>np.stack\<close> returns or the exception it raises, never a list. \<^verbatim>\<open>_stack_nested\<close> is
  \<^verbatim>\<open>stack_arrays\<close> whenever the first value is not a dict.
\<close>

theorem stack_arrays_first_decides:
  "(\<not> is_ndarray e0 \<longrightarrow> stack_arrays c (e0 # rest) = Inr (PList (e0 # rest))) \<and>
   (is_ndarray e0 \<longrightarrow>
      stack_arrays c (e0 # rest) =
        (case np_stack c (e0 # rest) of
           Inl e \<Rightarrow> Inl e
         | Inr (dt, sh, items) \<Rightarrow> Inr (PArray dt sh items)) \<and>
      (\<forall>xs. stack_arrays c (e0 # rest) \<noteq> Inr (PList xs))) \<and>
   (\<not> is_dict e0 \<longrightarrow> stack_nested c (e0 # rest) = stack_arrays c (e0 # rest))"
  by (auto simp: stack_arrays_def stack_nested.simps split: sum.splits)

theorem stack_arrays_first_decides_witness:
  "\<not> is_ndarray (PInt 0) \<and>
   stack_arrays no_coerce [PInt 0, vector_a] = Inr (PList [PInt 0, vector_a]) \<and>
   is_ndarray vector_a \<and>
   stack_arrays no_coerce [vector_a, vector_b] =
     Inr (PArray (NpDType ''int64'') [2, 2] [vector_a, vector_b]) \<and>
   stack_arrays no_coerce [vector_a, vector_c] =
     Inl (NumpyValueError ''all input arrays must have the same shape'') \<and>
   stack_nested no_coerce [PInt 0, vector_a] = Inr (PList [PInt 0, vector_a])"
proof -
  have a: "\<not> is_ndarray (PInt 0)" "\<not> is_dict (PInt 0)" "is_ndarray vector_a"
    by (simp_all add: vector_a_def)
  have n1: "np_stack no_coerce [vector_a, vector_b] = Inr (NpDType ''int64'', [2, 2], [vector_a, vector_b])"
    by (simp add: np_stack_def vector_a_def vector_b_def)
  have n2: "np_stack no_coerce [vector_a, vector_c] =
      Inl (NumpyValueError ''all input arrays must have the same shape'')"
    by (simp add: np_stack_def vector_a_def vector_c_def)
  from a n1 n2 stack_arrays_first_decides[of "PInt 0" no_coerce "[vector_a]"]
    stack_arrays_first_decides[of vector_a no_coerce "[vector_b]"]
    stack_arrays_first_decides[of vector_a no_coerce "[vector_c]"]
  show ?thesis by simp
qed

subsection \<open>The merge of the encoded steps\<close>


lemma mapM_getitem: "mapM (\<lambda>d. dict_getitem d k) ds = Inr sub \<Longrightarrow> map (\<lambda>d. map_of d k) ds = map Some sub"
  by (induction ds arbitrary: sub) (auto simp: dict_getitem_def split: sum.splits option.splits)

















lemma map_of_key: "k \<in> set (map fst d) \<Longrightarrow> \<exists>v. map_of d k = Some v"
  by (metis map_of_eq_None_iff not_Some_eq set_map)

lemma sub_sequence:
  assumes keys: "\<forall>d\<in>set (d0 # ds'). set (map fst d) = set (map fst d0)"
    and k: "k \<in> set (map fst d0)"
  shows "\<exists>sub. mapM (\<lambda>d. dict_getitem d k) (d0 # ds') = Inr sub \<and>
           map (\<lambda>d. map_of d k) (d0 # ds') = map Some sub"
proof -
  have "mapM (\<lambda>d. dict_getitem d k) (d0 # ds') = Inr (map (\<lambda>d. the (map_of d k)) (d0 # ds'))"
  proof (rule mapM_Inr)
    fix d assume "d \<in> set (d0 # ds')"
    with keys k have "k \<in> set (map fst d)" by blast
    from map_of_key[OF this] obtain v where "map_of d k = Some v" ..
    then show "dict_getitem d k = Inr (the (map_of d k))" by (simp add: dict_getitem_def)
  qed
  then show ?thesis using mapM_getitem by blast
qed











end
